(* ===== verification/PSO_Prelude.thy ===== *)
theory PSO_Prelude
  imports Complex_Main "HOL-Library.Word" "HOL-Library.Stream"
begin

text \<open>
  Shared vocabulary of the model of \<open>src/pso_linReg.c\<close>: the type names of the
  model (C's \<open>unsigned\<close> as \<open>u32\<close>, the output of \<open>rand()\<close> as a stream), the
  model of a C \<open>for (i = 0; i < n; i++)\<close> loop over an \<open>unsigned\<close> counter, and the
  generic lemmas on words, lists and streams the component theories share.
  C \<open>double\<close>s are modelled as HOL reals (rounding is not modelled).
\<close>

type_synonym u32 = "32 word"

text \<open>The values \<open>rand()\<close> returns, in the order it returns them after \<open>srand\<close>.\<close>
type_synonym rand_stream = "nat stream"

named_theorems loop_simps "equations for the C loop combinator"
named_theorems model_defs "definitions of the small helpers of the model, unfolded by the proofs"

subsection \<open>Unsigned counters\<close>

lemma unat_inc_lt:
  fixes i n :: "'a::len word"
  assumes "i < n"
  shows "unat (i + 1) = Suc (unat i)"
proof -
  have "unat i < unat n" using assms by (simp add: word_less_nat_alt)
  moreover have "unat n < 2 ^ LENGTH('a)" by (rule unsigned_less)
  ultimately have "Suc (unat i) < 2 ^ LENGTH('a)" by linarith
  then show ?thesis by (simp add: unat_word_ariths)
qed

lemma unat_Suc_ex:
  fixes n :: "'a::len word"
  assumes "n \<noteq> 0"
  shows "\<exists>m. unat n = Suc m"
  using assms by (metis not0_implies_Suc unat_eq_zero)

lemma inc_le_imp_le:
  fixes i j n :: "'a::len word"
  assumes "i < n" and "i + 1 \<le> j"
  shows "i \<le> j"
  using assms by (simp add: word_le_nat_alt unat_inc_lt)

subsection \<open>The C loop \<open>for (i = i0; i < n; i++) body\<close> over an unsigned counter\<close>

text \<open>
  The counter is a 32-bit word, as the source's \<open>unsigned i\<close>; \<open>i + 1\<close> wraps in
  general, but never under the guard \<open>i < n\<close>, which is why the loop ends: the
  measure \<open>unat n - unat i\<close> decreases.
\<close>

function for_u32 :: "u32 \<Rightarrow> u32 \<Rightarrow> (u32 \<Rightarrow> 's \<Rightarrow> 's) \<Rightarrow> 's \<Rightarrow> 's" where
  "for_u32 i n body s = (if i < n then for_u32 (i + 1) n body (body i s) else s)"
  by pat_completeness auto
termination
  by (relation "measure (\<lambda>(i, n, _, _). unat n - unat i)")
     (auto simp: unat_inc_lt word_less_nat_alt)

declare for_u32.simps [simp del]

lemma for_u32_step [loop_simps]:
  "i < n \<Longrightarrow> for_u32 i n body s = for_u32 (i + 1) n body (body i s)"
  by (simp add: for_u32.simps)

lemma for_u32_stop [loop_simps]:
  "\<not> i < n \<Longrightarrow> for_u32 i n body s = s"
  by (simp add: for_u32.simps)

text \<open>A loop invariant: kept by every iteration, it holds after the loop.\<close>

lemma for_u32_rule:
  assumes "P s"
    and "\<And>j t. i \<le> j \<Longrightarrow> j < n \<Longrightarrow> P t \<Longrightarrow> P (body j t)"
  shows "P (for_u32 i n body s)"
  using assms
proof (induction i n body s rule: for_u32.induct)
  case (1 i n body s)
  show ?case
  proof (cases "i < n")
    case True
    have "P (body i s)" using "1.prems" True by simp
    moreover have "\<And>j t. i + 1 \<le> j \<Longrightarrow> j < n \<Longrightarrow> P t \<Longrightarrow> P (body j t)"
      using "1.prems"(2) True
      by (meson inc_le_imp_le)
    ultimately show ?thesis
      using "1.IH" [OF True] True by (simp add: for_u32_step)
  next
    case False
    then show ?thesis using "1.prems" by (simp add: for_u32_stop)
  qed
qed

text \<open>
  Simulation: when \<open>h\<close> maps each iteration of one body to an iteration of another,
  it maps the whole loop.
\<close>

lemma for_u32_simulation:
  assumes "\<And>j t. f j (h t) = h (g j t)"
  shows "for_u32 i n f (h s) = h (for_u32 i n g s)"
  using assms
proof (induction i n g s rule: for_u32.induct)
  case (1 i n g s)
  then show ?case by (cases "i < n") (simp_all add: for_u32_step for_u32_stop)
qed

subsection \<open>Streams\<close>

lemma sset_sdrop_subset: "sset (sdrop n s) \<subseteq> sset s"
  by (auto simp: sset_range sdrop_snth)

lemma stake_eq_snth: "stake n s1 = stake n s2 \<Longrightarrow> i < n \<Longrightarrow> s1 !! i = s2 !! i"
  by (metis stake_nth)

lemma stake_eq_split:
  assumes "stake (a + b) s1 = stake (a + b) s2"
  shows "stake a s1 = stake a s2" and "stake b (sdrop a s1) = stake b (sdrop a s2)"
proof -
  have "stake a s1 @ stake b (sdrop a s1) = stake a s2 @ stake b (sdrop a s2)"
    using assms by simp
  then show "stake a s1 = stake a s2" and "stake b (sdrop a s1) = stake b (sdrop a s2)"
    by (metis append_eq_append_conv length_stake)+
qed

end
