(* ===== verification/Fitness.thy ===== *)
theory Fitness
  imports PSO_Prelude
begin

text \<open>
  The objective of the optimiser, \<open>fit\<close> (\<open>src/pso_linReg.c\<close>, lines 46--51): the
  absolute value of a cubic, evaluated in Horner form. The theory proves that the
  Horner form is the cubic that the comment on line 56 and the spec name (the comment on
  line 49 names another, with \<open>1000x\<close>), and that the reference optimum that the comment
  on line 44 and \<open>main\<close> (line 116) quote, \<open>fit(-57.469) = 390245.791738\<close>, is
  the maximum of \<open>fit\<close> on the search space \<open>[-100, 100]\<close> up to \<open>10\<^sup>-\<^sup>4\<close>.
\<close>

definition fit :: "real \<Rightarrow> real" where
  "fit x = \<bar>8000 + x * (-10000 + x * (-0.8 + x))\<bar>"

text \<open>The cubic the spec (section 4.1) and the comment on line 56 describe.\<close>

definition fit_spec :: "real \<Rightarrow> real" where
  "fit_spec x = \<bar>x ^ 3 - 0.8 * x\<^sup>2 - 10000 * x + 8000\<bar>"

subsection \<open>Shared facts\<close>

lemma fit_nonneg [simp]: "0 \<le> fit x"
  by (simp add: fit_def)

lemma horner_cubic:
  "8000 + x * (-10000 + x * (-0.8 + x)) = x ^ 3 - 0.8 * x\<^sup>2 - 10000 * x + (8000::real)"
  by (simp add: power2_eq_square power3_eq_cube algebra_simps)

text \<open>
  Bounds of the cubic on the search space, each from a certificate: a product that is
  non-negative on \<open>[-100, 100]\<close> plus a linear rest whose sign linear arithmetic decides.
  The upper bound expands around \<open>a = -57.468976089\<close>, nine decimals of the local maximum;
  the lower bound around \<open>57.97\<close>, near the local minimum.
\<close>

lemma cubic_upper:
  assumes "-100 \<le> x" and "x \<le> 100"
  shows "8000 + x * (-10000 + x * (-0.8 + x)) \<le> (390245.7918::real)"
proof -
  define a :: real where "a = -57.468976089"
  define r1 :: real where "r1 = 10000 - 3 * a * a + 1.6 * a"
  define r0 :: real where "r0 = 390245.7918 - 8000 - a * a * (0.8 - 2 * a)"
  have eq: "390245.7918 - (8000 + x * (-10000 + x * (-0.8 + x)))
      = (0.8 - 2 * a - x) * (x - a)\<^sup>2 + r1 * x + r0"
    by (simp add: r1_def r0_def power2_eq_square algebra_simps)
  have "0 \<le> (0.8 - 2 * a - x) * (x - a)\<^sup>2"
    using assms(2) by (simp add: a_def)
  moreover have "0 \<le> r1 * x + r0"
    using assms by (simp add: r1_def r0_def a_def)
  ultimately show ?thesis using eq by linarith
qed

lemma cubic_lower:
  assumes "-100 \<le> x" and "x \<le> 100"
  shows "- (390245.7918::real) \<le> 8000 + x * (-10000 + x * (-0.8 + x))"
proof -
  define c :: real where "c = 57.97"
  define s1 :: real where "s1 = -10000 - (c * c + 2 * c * (0.8 - 2 * c))"
  define s0 :: real where "s0 = 8000 + 390245.7918 + c * c * (0.8 - 2 * c)"
  have eq: "(8000 + x * (-10000 + x * (-0.8 + x))) + 390245.7918
      = (x - c)\<^sup>2 * (x - (0.8 - 2 * c)) + s1 * x + s0"
    by (simp add: s1_def s0_def power2_eq_square algebra_simps)
  have "0 \<le> (x - c)\<^sup>2 * (x - (0.8 - 2 * c))"
    using assms(1) by (simp add: c_def)
  moreover have "0 \<le> s1 * x + s0"
    using assms by (simp add: s1_def s0_def c_def)
  ultimately show ?thesis using eq by linarith
qed

lemma fit_le_max_value:
  assumes "-100 \<le> x" and "x \<le> 100"
  shows "fit x \<le> 390245.7918"
  unfolding fit_def abs_le_iff using cubic_upper [OF assms] cubic_lower [OF assms] by linarith

lemma fit_reference_ge: "390245.7917 \<le> fit (-57.469)"
  by (simp add: fit_def)

subsection \<open>Properties of the objective\<close>

text \<open>C8: the Horner form that \<open>fit\<close> evaluates is the cubic of the spec.\<close>

theorem fit_eq_spec: "fit x = fit_spec x"
  unfolding fit_def fit_spec_def horner_cubic ..

text \<open>
  C9: on the search space \<open>[-100, 100]\<close> no position is better than the reference point
  \<open>-57.469\<close> by more than \<open>10\<^sup>-\<^sup>4\<close>: the reference is the optimum the run should find.
\<close>

theorem fit_reference_is_max:
  assumes "-100 \<le> x" and "x \<le> 100"
  shows "fit x \<le> fit (-57.469) + 0.0001"
  using fit_le_max_value [OF assms] fit_reference_ge by linarith

theorem fit_reference_is_max_witness:
  "-100 \<le> (58::real) \<and> (58::real) \<le> 100 \<and> fit 58 \<le> fit (-57.469) + 0.0001"
  using fit_reference_is_max [of 58] by simp

end
