(* ===== verification/PSO_Random.thy ===== *)
theory PSO_Random
  imports PSO_Prelude
begin

text \<open>
  The random source of \<open>src/pso_linReg.c\<close>. The C library's \<open>rand()\<close> is not
  code of the repository: it is modelled by the stream of the values it returns after
  \<open>srand\<close>, each in \<open>[0, RAND_MAX]\<close> as the C standard requires (\<open>rand_ok\<close>).
  The macro \<open>RND()\<close> (line 85) draws one value and scales it into \<open>[0, 1]\<close>.
  \<open>RAND_MAX\<close> is the value of the compiler the header names (Visual C++ 2008).
\<close>

definition RAND_MAX :: nat where
  "RAND_MAX = 32767"

text \<open>\<open>rand()\<close>: the next value, and the rest of the stream.\<close>

definition rand :: "rand_stream \<Rightarrow> nat \<times> rand_stream" where
  "rand s = (shd s, stl s)"

text \<open>\<open>#define RND() ((double)rand()/RAND_MAX)\<close>\<close>

definition RND :: "rand_stream \<Rightarrow> real \<times> rand_stream" where
  "RND s = (let (r, s') = rand s in (real r / real RAND_MAX, s'))"

definition rand_ok :: "rand_stream \<Rightarrow> bool" where
  "rand_ok s \<longleftrightarrow> (\<forall>r \<in> sset s. r \<le> RAND_MAX)"

lemma RND_eq [model_defs]: "RND s = (real (shd s) / real RAND_MAX, stl s)"
  by (simp add: RND_def rand_def)

lemma RAND_MAX_pos [simp]: "0 < RAND_MAX"
  by (simp add: RAND_MAX_def)

lemma RND_range:
  assumes "rand_ok s"
  shows "0 \<le> fst (RND s)" and "fst (RND s) \<le> 1"
proof -
  have "shd s \<le> RAND_MAX" using assms shd_sset by (auto simp: rand_ok_def)
  then show "0 \<le> fst (RND s)" and "fst (RND s) \<le> 1"
    by (simp_all add: RND_eq)
qed

lemma rand_ok_sdrop [simp]: "rand_ok s \<Longrightarrow> rand_ok (sdrop n s)"
  using sset_sdrop_subset [of n s] by (auto simp: rand_ok_def)

lemma rand_ok_RND [simp]: "rand_ok s \<Longrightarrow> rand_ok (snd (RND s))"
  by (auto simp: rand_ok_def RND_eq dest: stl_sset)

lemma rand_ok_sconst [simp]: "rand_ok (sconst r) \<longleftrightarrow> r \<le> RAND_MAX"
  by (simp add: rand_ok_def)

end
