(* ===== verification/Particle.thy ===== *)
theory Particle
  imports Fitness PSO_Random
begin

text \<open>
  One particle of \<open>src/pso_linReg.c\<close>: the \<open>particle\<close> struct (lines 61--67), the
  global parameters (lines 75--78), and what the bodies of the loops of \<open>ParticleInit\<close>
  (lines 138--142) and \<open>ParticleMove\<close> (lines 160--184) do to one particle. Each
  operation takes the random stream and returns it with the draws it made removed. The
  lemmas show that a particle stays inside the search space and the velocity limit, that
  its cached fitness and personal best agree with \<open>fit\<close>, and that its personal best
  never decreases.
\<close>

record particle =
  position :: real
  velocity :: real
  fitness :: real
  pbest_pos :: real
  pbest_fit :: real

text \<open>
  The globals \<open>w, c1, c2, max_v, max_pos, min_pos, particle_cnt\<close>, set once by
  \<open>main\<close> and read by the other functions. \<open>gbest\<close>, the other global, changes and
  is part of the state (theory \<open>Swarm\<close>).
\<close>

record params =
  w :: real
  c1 :: real
  c2 :: real
  max_v :: real
  max_pos :: real
  min_pos :: real
  particle_cnt :: u32

text \<open>The values \<open>main\<close> gives the parameters (lines 102--105).\<close>

definition main_params :: params where
  "main_params =
     \<lparr>w = 1.00, c1 = 2.0, c2 = 2.0, max_v = (100.0 - (-100.0)) * 1.0, max_pos = 100.0,
      min_pos = -100.0, particle_cnt = 2000\<rparr>"

text \<open>The parameters for which the clamps of \<open>ParticleMove\<close> describe intervals.\<close>

definition params_ok :: "params \<Rightarrow> bool" where
  "params_ok cfg \<longleftrightarrow> min_pos cfg \<le> max_pos cfg \<and> 0 \<le> max_v cfg"

subsection \<open>Operations on one particle\<close>

text \<open>Lines 165--166.\<close>

definition clamp_velocity :: "real \<Rightarrow> real \<Rightarrow> real" where
  "clamp_velocity mv v = (if v < - mv then - mv else if v > mv then mv else v)"

text \<open>Lines 169--170.\<close>

definition clamp_position :: "real \<Rightarrow> real \<Rightarrow> real \<Rightarrow> real" where
  "clamp_position lo hi pos = (if pos > hi then hi else if pos < lo then lo else pos)"

text \<open>
  Lines 138--142: a random position in \<open>[min_pos, max_pos]\<close>, then a random velocity in
  \<open>[0, max_v]\<close>, both also the personal best. \<open>pos_range\<close> is computed once before
  the loop (line 132); the parameters do not change, so computing it here is the same.
\<close>

definition init_particle :: "params \<Rightarrow> rand_stream \<Rightarrow> particle \<times> rand_stream" where
  "init_particle cfg s =
     (let pos_range = max_pos cfg - min_pos cfg;
          (r1, s1) = RND s;
          pos = r1 * pos_range + min_pos cfg;
          (r2, s2) = RND s1;
          vel = r2 * max_v cfg;
          f = fit pos
      in (\<lparr>position = pos, velocity = vel, fitness = f, pbest_pos = pos, pbest_fit = f\<rparr>, s2))"

text \<open>
  Lines 160--180, one iteration of the loop of \<open>ParticleMove\<close> without the global best,
  for the two values \<open>r1\<close>, \<open>r2\<close> the \<open>RND()\<close> calls of line 164 return: the new
  velocity attracted by the personal best and by \<open>gpos\<close>, the global best position read
  once before the loop (line 156); the two clamps; the new fitness; the personal best
  kept if not strictly improved.
\<close>

definition particle_update :: "params \<Rightarrow> real \<Rightarrow> real \<Rightarrow> real \<Rightarrow> particle \<Rightarrow> particle" where
  "particle_update cfg gpos r1 r2 p =
     (let v = velocity p;
          pos = position p;
          ppos = pbest_pos p;
          v = w cfg * v + c1 cfg * r1 * (ppos - pos) + c2 cfg * r2 * (gpos - pos);
          v = clamp_velocity (max_v cfg) v;
          pos = clamp_position (min_pos cfg) (max_pos cfg) (pos + v);
          p = p\<lparr>velocity := v, position := pos, fitness := fit pos\<rparr>
      in if fitness p > pbest_fit p then p\<lparr>pbest_fit := fitness p, pbest_pos := position p\<rparr> else p)"

text \<open>
  The two \<open>RND()\<close> calls of line 164 are operands of one \<open>+\<close>: C leaves their order
  unspecified. \<open>move_particle\<close> draws left to right (\<open>r1\<close> first), the order the
  rest of the development uses; \<open>move_particle_rl\<close> draws right to left.
\<close>

definition move_particle :: "params \<Rightarrow> real \<Rightarrow> particle \<Rightarrow> rand_stream \<Rightarrow> particle \<times> rand_stream" where
  "move_particle cfg gpos p s =
     (let (r1, s1) = RND s;
          (r2, s2) = RND s1
      in (particle_update cfg gpos r1 r2 p, s2))"

definition move_particle_rl :: "params \<Rightarrow> real \<Rightarrow> particle \<Rightarrow> rand_stream \<Rightarrow> particle \<times> rand_stream" where
  "move_particle_rl cfg gpos p s =
     (let (r2, s1) = RND s;
          (r1, s2) = RND s1
      in (particle_update cfg gpos r1 r2 p, s2))"

text \<open>Lines 183--184: the global best becomes a copy of the particle if it is strictly better.\<close>

definition update_gbest :: "particle \<Rightarrow> particle \<Rightarrow> particle" where
  "update_gbest p g = (if fitness p > fitness g then p else g)"

subsection \<open>The invariant of one particle\<close>

definition particle_ok :: "params \<Rightarrow> particle \<Rightarrow> bool" where
  "particle_ok cfg p \<longleftrightarrow>
     min_pos cfg \<le> position p \<and> position p \<le> max_pos cfg \<and>
     - max_v cfg \<le> velocity p \<and> velocity p \<le> max_v cfg \<and>
     fitness p = fit (position p) \<and>
     min_pos cfg \<le> pbest_pos p \<and> pbest_pos p \<le> max_pos cfg \<and>
     pbest_fit p = fit (pbest_pos p)"

subsection \<open>Shared lemmas\<close>

lemma clamp_velocity_range:
  "0 \<le> mv \<Longrightarrow> - mv \<le> clamp_velocity mv v \<and> clamp_velocity mv v \<le> mv"
  by (simp add: clamp_velocity_def)

lemma clamp_position_range:
  "lo \<le> hi \<Longrightarrow> lo \<le> clamp_position lo hi x \<and> clamp_position lo hi x \<le> hi"
  by (simp add: clamp_position_def)

lemma clamp_velocity_id: "- mv \<le> v \<Longrightarrow> v \<le> mv \<Longrightarrow> clamp_velocity mv v = v"
  by (simp add: clamp_velocity_def)

lemma clamp_position_id: "lo \<le> x \<Longrightarrow> x \<le> hi \<Longrightarrow> clamp_position lo hi x = x"
  by (simp add: clamp_position_def)

text \<open>The shape of one move, with the two draws named.\<close>

lemma move_particle_eq:
  "move_particle cfg gpos p s =
     (let v = clamp_velocity (max_v cfg)
                (w cfg * velocity p + c1 cfg * fst (RND s) * (pbest_pos p - position p)
                 + c2 cfg * fst (RND (stl s)) * (gpos - position p));
          pos = clamp_position (min_pos cfg) (max_pos cfg) (position p + v);
          q = p\<lparr>velocity := v, position := pos, fitness := fit pos\<rparr>
      in (if fit pos > pbest_fit p then q\<lparr>pbest_fit := fit pos, pbest_pos := pos\<rparr> else q,
          stl (stl s)))"
  by (simp add: move_particle_def particle_update_def RND_eq Let_def)

lemma init_particle_eq:
  "init_particle cfg s =
     (let pos = fst (RND s) * (max_pos cfg - min_pos cfg) + min_pos cfg
      in (\<lparr>position = pos, velocity = fst (RND (stl s)) * max_v cfg, fitness = fit pos,
           pbest_pos = pos, pbest_fit = fit pos\<rparr>, stl (stl s)))"
  by (simp add: init_particle_def RND_eq Let_def)

lemma move_particle_rng [simp]: "snd (move_particle cfg gpos p s) = sdrop 2 s"
  by (simp add: move_particle_eq Let_def numeral_2_eq_2)

lemma init_particle_rng [simp]: "snd (init_particle cfg s) = sdrop 2 s"
  by (simp add: init_particle_eq Let_def numeral_2_eq_2)

lemma update_gbest_fitness_ge: "fitness g \<le> fitness (update_gbest p g)"
  by (simp add: update_gbest_def)

lemma update_gbest_cases: "update_gbest p g = p \<or> update_gbest p g = g"
  by (simp add: update_gbest_def)

lemma clamp_velocity_bounds [simp]:
  "0 \<le> mv \<Longrightarrow> - mv \<le> clamp_velocity mv v"
  "0 \<le> mv \<Longrightarrow> clamp_velocity mv v \<le> mv"
  using clamp_velocity_range by blast+

lemma clamp_position_bounds [simp]:
  "lo \<le> hi \<Longrightarrow> lo \<le> clamp_position lo hi x"
  "lo \<le> hi \<Longrightarrow> clamp_position lo hi x \<le> hi"
  using clamp_position_range by blast+

lemmas particle_unfold = move_particle_eq init_particle_eq particle_ok_def params_ok_def Let_def

lemma move_particle_pbest:
  "pbest_fit (fst (move_particle cfg gpos p s)) = max (pbest_fit p) (fitness (fst (move_particle cfg gpos p s)))"
  "pbest_pos (fst (move_particle cfg gpos p s)) =
     (if fitness (fst (move_particle cfg gpos p s)) > pbest_fit p
      then position (fst (move_particle cfg gpos p s)) else pbest_pos p)"
  by (simp_all add: move_particle_eq Let_def)

lemma move_particle_pbest_improved:
  assumes "pbest_fit p < fitness (fst (move_particle cfg gpos p s))"
  shows "pbest_pos (fst (move_particle cfg gpos p s)) = position (fst (move_particle cfg gpos p s))"
    and "pbest_fit (fst (move_particle cfg gpos p s)) = fitness (fst (move_particle cfg gpos p s))"
  using assms by (simp_all add: move_particle_pbest)

lemma move_particle_pbest_kept:
  assumes "\<not> pbest_fit p < fitness (fst (move_particle cfg gpos p s))"
  shows "pbest_pos (fst (move_particle cfg gpos p s)) = pbest_pos p"
    and "pbest_fit (fst (move_particle cfg gpos p s)) = pbest_fit p"
  using assms by (simp_all add: move_particle_pbest)

lemma update_gbest_fitness_ge_new: "fitness p \<le> fitness (update_gbest p g)"
  by (simp add: update_gbest_def)

lemma init_particle_pbest [simp]:
  "pbest_pos (fst (init_particle cfg s)) = position (fst (init_particle cfg s))"
  "pbest_fit (fst (init_particle cfg s)) = fitness (fst (init_particle cfg s))"
  by (simp_all add: init_particle_eq Let_def)

subsection \<open>The invariant of one particle is kept\<close>

text \<open>
  A move keeps a particle inside the search space and the velocity limit, with its
  cached fitness and its personal best agreeing with \<open>fit\<close>.
\<close>

lemma particle_ok_move:
  assumes "params_ok cfg" and "particle_ok cfg p"
  shows "particle_ok cfg (fst (move_particle cfg gpos p s))"
  using assms by (simp add: particle_unfold)

text \<open>
  Initialisation puts a particle inside the search space with a velocity in
  \<open>[0, max_v]\<close>, provided \<open>rand()\<close> returns values in \<open>[0, RAND_MAX]\<close>.
\<close>

lemma particle_ok_init:
  assumes "params_ok cfg" and "rand_ok s"
  shows "particle_ok cfg (fst (init_particle cfg s)) \<and> 0 \<le> velocity (fst (init_particle cfg s))"
proof -
  have r1: "0 \<le> fst (RND s)" "fst (RND s) \<le> 1" using RND_range assms(2) by blast+
  have r2: "0 \<le> fst (RND (stl s))" "fst (RND (stl s)) \<le> 1"
    using RND_range rand_ok_RND [OF assms(2)] by (simp_all add: RND_eq)
  let ?d = "max_pos cfg - min_pos cfg"
  have d: "0 \<le> ?d" using assms(1) by (simp add: params_ok_def)
  have "fst (RND s) * ?d \<le> ?d" using r1 d by (simp add: mult_left_le_one_le)
  moreover have "0 \<le> fst (RND s) * ?d" using r1 d by simp
  moreover have "fst (RND (stl s)) * max_v cfg \<le> max_v cfg"
    using r2 assms(1) by (simp add: params_ok_def mult_left_le_one_le)
  moreover have "0 \<le> fst (RND (stl s)) * max_v cfg"
    using r2 assms(1) by (simp add: params_ok_def)
  ultimately show ?thesis using assms(1)
    by (simp add: init_particle_eq particle_ok_def params_ok_def Let_def)
qed

lemma particle_ok_update:
  assumes "params_ok cfg" and "particle_ok cfg p"
  shows "particle_ok cfg (particle_update cfg gpos r1 r2 p)"
  using assms by (simp add: particle_update_def particle_ok_def params_ok_def Let_def)

text \<open>A move and an initialisation read only the first two values of the stream.\<close>

lemma move_particle_draws:
  "fst (move_particle cfg gpos p s)
     = particle_update cfg gpos (real (shd s) / real RAND_MAX) (real (shd (stl s)) / real RAND_MAX) p"
  by (simp add: move_particle_def RND_eq)

lemma init_particle_draws:
  "fst (init_particle cfg s) = fst (init_particle cfg (shd s ## shd (stl s) ## sconst 0))"
  by (simp add: init_particle_eq RND_eq Let_def)

text \<open>The live comparison of lines 183--184 folded over a sequence of particles.\<close>

lemma fold_update_gbest_find:
  "(\<forall>q \<in> set (g # ps). fitness q \<le> fitness (fold update_gbest ps g))
   \<and> find (\<lambda>q. fitness (fold update_gbest ps g) \<le> fitness q) (g # ps) = Some (fold update_gbest ps g)"
proof (induction ps arbitrary: g)
  case Nil
  then show ?case by simp
next
  case (Cons p ps)
  define F where "F = fold update_gbest ps (update_gbest p g)"
  have IH: "\<forall>q \<in> set (update_gbest p g # ps). fitness q \<le> fitness F"
    "find (\<lambda>q. fitness F \<le> fitness q) (update_gbest p g # ps) = Some F"
    using Cons.IH [of "update_gbest p g"] by (simp_all add: F_def)
  have "(\<forall>q \<in> set (g # p # ps). fitness q \<le> fitness F)
      \<and> find (\<lambda>q. fitness F \<le> fitness q) (g # p # ps) = Some F"
  proof (cases "fitness p > fitness g")
    case True
    then show ?thesis using IH by (auto simp: update_gbest_def)
  next
    case False
    then have g1: "update_gbest p g = g" by (simp add: update_gbest_def)
    have gF: "fitness g \<le> fitness F" using IH(1) by (simp add: g1)
    have "find (\<lambda>q. fitness F \<le> fitness q) (g # p # ps) = Some F"
    proof (cases "fitness F \<le> fitness g")
      case True
      then show ?thesis using IH(2) by (simp add: g1)
    next
      case gt: False
      then have "\<not> fitness F \<le> fitness p" using False by linarith
      then show ?thesis using IH(2) gt by (simp add: g1)
    qed
    then show ?thesis using IH(1) False gF by (simp add: g1)
  qed
  then show ?case by (simp add: F_def)
qed

lemma fold_update_gbest_mem: "fold update_gbest ps g \<in> insert g (set ps)"
proof (induction ps arbitrary: g)
  case Nil
  then show ?case by simp
next
  case (Cons p ps)
  then show ?case using update_gbest_cases [of p g] by fastforce
qed

lemma fold_update_gbest_stays:
  "\<forall>p \<in> set ps. fitness p \<le> fitness g \<Longrightarrow> fold update_gbest ps g = g"
  by (induction ps) (simp_all add: update_gbest_def)

lemma fold_update_gbest_first:
  "\<exists>j < length (g # ps). fold update_gbest ps g = (g # ps) ! j
     \<and> (\<forall>k < length (g # ps). fitness ((g # ps) ! k) \<le> fitness (fold update_gbest ps g))
     \<and> (\<forall>k < j. fitness ((g # ps) ! k) < fitness (fold update_gbest ps g))"
proof -
  let ?F = "fold update_gbest ps g"
  have all: "\<forall>q \<in> set (g # ps). fitness q \<le> fitness ?F"
    and f: "find (\<lambda>q. fitness ?F \<le> fitness q) (g # ps) = Some ?F"
    using fold_update_gbest_find [of g ps] by simp_all
  obtain j where "j < length (g # ps)" "?F = (g # ps) ! j"
      "\<forall>k < j. \<not> fitness ?F \<le> fitness ((g # ps) ! k)"
    using f unfolding find_Some_iff by blast
  then show ?thesis using all by (metis nth_mem not_le)
qed

subsection \<open>The evaluation order of line 164\<close>

text \<open>
  C17: whichever order the compiler gives the two \<open>RND()\<close> calls of line 164, one move
  keeps a particle inside the search space and the velocity limit with fitness and
  personal best agreeing with \<open>fit\<close>: the invariants do not depend on the order.
\<close>

theorem move_particle_any_order_ok:
  assumes "params_ok cfg" and "particle_ok cfg p"
  shows "particle_ok cfg (fst (move_particle cfg gpos p s))
       \<and> particle_ok cfg (fst (move_particle_rl cfg gpos p s))"
  using particle_ok_update [OF assms]
  by (simp add: move_particle_def move_particle_rl_def case_prod_unfold Let_def)

theorem move_particle_any_order_ok_witness:
  "params_ok main_params
   \<and> particle_ok main_params \<lparr>position = 0, velocity = 0, fitness = fit 0, pbest_pos = 0, pbest_fit = fit 0\<rparr>
   \<and> particle_ok main_params (fst (move_particle main_params 50
        \<lparr>position = 0, velocity = 0, fitness = fit 0, pbest_pos = 0, pbest_fit = fit 0\<rparr> (sconst 7)))
   \<and> particle_ok main_params (fst (move_particle_rl main_params 50
        \<lparr>position = 0, velocity = 0, fitness = fit 0, pbest_pos = 0, pbest_fit = fit 0\<rparr> (sconst 7)))"
proof -
  have h: "params_ok main_params"
    "particle_ok main_params \<lparr>position = 0, velocity = 0, fitness = fit 0, pbest_pos = 0, pbest_fit = fit 0\<rparr>"
    by (simp_all add: main_params_def params_ok_def particle_ok_def)
  show ?thesis using h move_particle_any_order_ok [OF h] by blast
qed

end
