(* ===== verification/Swarm.thy ===== *)
theory Swarm
  imports Particle
begin

text \<open>
  The swarm of \<open>src/pso_linReg.c\<close>: the particle array \<open>p\<close>, the global best
  \<open>gbest\<close> and the random stream, as one state record, and the functions that change it:
  \<open>ParticleInit\<close> (lines 129--148) and \<open>ParticleMove\<close> (lines 151--186), each the C
  loop \<open>for (i = 0; i < particle_cnt; i++)\<close> over an \<open>unsigned\<close> counter (\<open>for_u32\<close>)
  with its body. Next to each, a list-recursive reference (\<open>init_ref\<close>, \<open>move_ref\<close>)
  and the lemma that the loop computes it; the closed forms of a sweep follow from those.
\<close>

record pso_state =
  swarm :: "particle list"
  gbest :: particle
  rng :: rand_stream

text \<open>\<open>particle gbest;\<close> (line 79): a global, so zero-initialised.\<close>

definition zero_particle :: particle where
  "zero_particle = \<lparr>position = 0, velocity = 0, fitness = 0, pbest_pos = 0, pbest_fit = 0\<rparr>"

subsection \<open>\<open>ParticleInit\<close>\<close>

text \<open>Lines 136--147: one iteration; \<open>memcpy\<close> of the particle into \<open>gbest\<close> is a copy.\<close>

definition init_body :: "params \<Rightarrow> u32 \<Rightarrow> pso_state \<Rightarrow> pso_state" where
  "init_body cfg i st =
     (let (p, s) = init_particle cfg (rng st);
          g = (if i = 0 \<or> pbest_fit p > fitness (gbest st) then p else gbest st)
      in st\<lparr>swarm := (swarm st)[unat i := p], gbest := g, rng := s\<rparr>)"

text \<open>
  Lines 129--148. \<open>srand((unsigned)time(NULL))\<close> (line 133) seeds the generator: the
  stream \<open>seed\<close> is what \<open>rand()\<close> returns after it.
\<close>

definition ParticleInit :: "params \<Rightarrow> rand_stream \<Rightarrow> pso_state \<Rightarrow> pso_state" where
  "ParticleInit cfg seed st = for_u32 0 (particle_cnt cfg) (init_body cfg) (st\<lparr>rng := seed\<rparr>)"

subsection \<open>\<open>ParticleMove\<close>\<close>

text \<open>Lines 160--184: one iteration, with \<open>gpos\<close> read before the loop.\<close>

definition move_body :: "params \<Rightarrow> real \<Rightarrow> u32 \<Rightarrow> pso_state \<Rightarrow> pso_state" where
  "move_body cfg gpos i st =
     (let (p, s) = move_particle cfg gpos (swarm st ! unat i) (rng st)
      in st\<lparr>swarm := (swarm st)[unat i := p], gbest := update_gbest p (gbest st), rng := s\<rparr>)"

text \<open>Lines 151--186: \<open>gpos = gbest.position\<close> once, then the loop.\<close>

definition ParticleMove :: "params \<Rightarrow> pso_state \<Rightarrow> pso_state" where
  "ParticleMove cfg st = for_u32 0 (particle_cnt cfg) (move_body cfg (position (gbest st))) st"

subsection \<open>Reference sweeps over the list\<close>

fun init_ref :: "params \<Rightarrow> nat \<Rightarrow> nat \<Rightarrow> particle \<Rightarrow> rand_stream
    \<Rightarrow> particle list \<times> particle \<times> rand_stream" where
  "init_ref cfg k 0 g s = ([], g, s)"
| "init_ref cfg k (Suc n) g s =
     (let (p, s') = init_particle cfg s;
          g' = (if k = 0 \<or> pbest_fit p > fitness g then p else g);
          (ps, g'', s'') = init_ref cfg (Suc k) n g' s'
      in (p # ps, g'', s''))"

fun move_ref :: "params \<Rightarrow> real \<Rightarrow> particle list \<Rightarrow> particle \<Rightarrow> rand_stream
    \<Rightarrow> particle list \<times> particle \<times> rand_stream" where
  "move_ref cfg gpos [] g s = ([], g, s)"
| "move_ref cfg gpos (p # ps) g s =
     (let (p', s') = move_particle cfg gpos p s;
          (ps', g', s'') = move_ref cfg gpos ps (update_gbest p' g) s'
      in (p' # ps', g', s''))"

subsection \<open>The loops compute the reference sweeps\<close>

lemma move_ref_Cons:
  "move_ref cfg gpos (p # ps) g s =
     (let p' = fst (move_particle cfg gpos p s);
          r = move_ref cfg gpos ps (update_gbest p' g) (sdrop 2 s)
      in (p' # fst r, snd r))"
  by (simp add: case_prod_unfold Let_def del: sdrop.simps)

lemma init_ref_Suc:
  "init_ref cfg k (Suc n) g s =
     (let p = fst (init_particle cfg s);
          r = init_ref cfg (Suc k) n (if k = 0 \<or> pbest_fit p > fitness g then p else g) (sdrop 2 s)
      in (p # fst r, snd r))"
  by (simp add: case_prod_unfold Let_def del: sdrop.simps)

declare move_ref.simps(2) [simp del] init_ref.simps(2) [simp del]

lemma move_loop_ref:
  assumes "swarm st = pre @ ps" and "unat i = length pre"
    and "length (swarm st) = unat (particle_cnt cfg)"
  shows "for_u32 i (particle_cnt cfg) (move_body cfg gpos) st =
    (let r = move_ref cfg gpos ps (gbest st) (rng st)
     in st\<lparr>swarm := pre @ fst r, gbest := fst (snd r), rng := snd (snd r)\<rparr>)"
  using assms
proof (induction ps arbitrary: pre st i)
  case Nil
  then have "\<not> i < particle_cnt cfg" by (simp add: word_less_nat_alt)
  then show ?case using Nil.prems(1) by (simp add: for_u32_stop)
next
  case (Cons p ps)
  have lt: "i < particle_cnt cfg" using Cons.prems by (simp add: word_less_nat_alt)
  define p' where "p' = fst (move_particle cfg gpos p (rng st))"
  let ?st1 = "move_body cfg gpos i st"
  have st1: "?st1 = st\<lparr>swarm := (pre @ [p']) @ ps, gbest := update_gbest p' (gbest st),
      rng := sdrop 2 (rng st)\<rparr>"
    using Cons.prems(1,2) move_particle_rng [of cfg gpos p "rng st"]
    by (simp add: move_body_def p'_def case_prod_unfold Let_def del: sdrop.simps)
  have "for_u32 (i + 1) (particle_cnt cfg) (move_body cfg gpos) ?st1 =
      (let r = move_ref cfg gpos ps (gbest ?st1) (rng ?st1)
       in ?st1\<lparr>swarm := (pre @ [p']) @ fst r, gbest := fst (snd r), rng := snd (snd r)\<rparr>)"
    using Cons.prems lt by (intro Cons.IH) (simp_all add: st1 unat_inc_lt)
  then show ?case using lt
    by (simp add: for_u32_step st1 move_ref_Cons p'_def Let_def del: sdrop.simps)
qed

lemma init_loop_ref:
  assumes "swarm st = pre @ junk" and "unat i = length pre"
    and "length (swarm st) = unat (particle_cnt cfg)"
  shows "for_u32 i (particle_cnt cfg) (init_body cfg) st =
    (let r = init_ref cfg (unat i) (length junk) (gbest st) (rng st)
     in st\<lparr>swarm := pre @ fst r, gbest := fst (snd r), rng := snd (snd r)\<rparr>)"
  using assms
proof (induction junk arbitrary: pre st i)
  case Nil
  then have "\<not> i < particle_cnt cfg" by (simp add: word_less_nat_alt)
  then show ?case using Nil.prems(1) by (simp add: for_u32_stop)
next
  case (Cons x junk)
  have lt: "i < particle_cnt cfg" using Cons.prems by (simp add: word_less_nat_alt)
  define p where "p = fst (init_particle cfg (rng st))"
  define g1 where "g1 = (if unat i = 0 \<or> pbest_fit p > fitness (gbest st) then p else gbest st)"
  let ?st1 = "init_body cfg i st"
  have z: "(i = 0) = (unat i = 0)" by (simp add: unat_eq_zero)
  have st1: "?st1 = st\<lparr>swarm := (pre @ [p]) @ junk, gbest := g1, rng := sdrop 2 (rng st)\<rparr>"
    using Cons.prems(1,2) init_particle_rng [of cfg "rng st"]
    by (simp only: init_body_def case_prod_unfold Let_def z) (simp add: p_def g1_def del: sdrop.simps)
  have "for_u32 (i + 1) (particle_cnt cfg) (init_body cfg) ?st1 =
      (let r = init_ref cfg (unat (i + 1)) (length junk) (gbest ?st1) (rng ?st1)
       in ?st1\<lparr>swarm := (pre @ [p]) @ fst r, gbest := fst (snd r), rng := snd (snd r)\<rparr>)"
    using Cons.prems lt by (intro Cons.IH) (simp_all add: st1 unat_inc_lt)
  then show ?case using lt
    by (simp only: for_u32_step st1 init_ref_Suc length_Cons unat_inc_lt [OF lt])
       (simp add: Let_def p_def g1_def del: sdrop.simps)
qed

text \<open>The two functions, on a swarm of \<open>particle_cnt\<close> particles, as reference sweeps.\<close>

lemma ParticleMove_ref:
  assumes "length (swarm st) = unat (particle_cnt cfg)"
  shows "ParticleMove cfg st =
    (let r = move_ref cfg (position (gbest st)) (swarm st) (gbest st) (rng st)
     in st\<lparr>swarm := fst r, gbest := fst (snd r), rng := snd (snd r)\<rparr>)"
  using move_loop_ref [of st "[]" "swarm st" 0 cfg] assms by (simp add: ParticleMove_def)

lemma ParticleInit_ref:
  assumes "length (swarm st) = unat (particle_cnt cfg)"
  shows "ParticleInit cfg seed st =
    (let r = init_ref cfg 0 (unat (particle_cnt cfg)) (gbest st) seed
     in st\<lparr>swarm := fst r, gbest := fst (snd r), rng := snd (snd r)\<rparr>)"
  using init_loop_ref [of "st\<lparr>rng := seed\<rparr>" "[]" "swarm st" 0 cfg] assms
  by (simp add: ParticleInit_def)

subsection \<open>Closed forms of the reference sweeps\<close>

lemma move_ref_length [simp]: "length (fst (move_ref cfg gpos ps g s)) = length ps"
  by (induction ps arbitrary: g s) (simp_all add: move_ref_Cons Let_def)

lemma move_ref_rng: "snd (snd (move_ref cfg gpos ps g s)) = sdrop (2 * length ps) s"
  by (induction ps arbitrary: g s) (simp_all add: move_ref_Cons Let_def)

lemma move_ref_swarm:
  "fst (move_ref cfg gpos ps g s) =
     map (\<lambda>k. fst (move_particle cfg gpos (ps ! k) (sdrop (2 * k) s))) [0..<length ps]"
  by (induction ps arbitrary: g s) (simp_all add: move_ref_Cons Let_def map_upt_Suc del: upt_Suc)

lemma move_ref_gbest:
  "fst (snd (move_ref cfg gpos ps g s)) = fold update_gbest (fst (move_ref cfg gpos ps g s)) g"
  by (induction ps arbitrary: g s) (simp_all add: move_ref_Cons Let_def)

lemma init_ref_length [simp]: "length (fst (init_ref cfg k n g s)) = n"
  by (induction n arbitrary: k g s) (simp_all add: init_ref_Suc Let_def)

lemma init_ref_rng: "snd (snd (init_ref cfg k n g s)) = sdrop (2 * n) s"
  by (induction n arbitrary: k g s) (simp_all add: init_ref_Suc Let_def)

lemma init_ref_swarm:
  "fst (init_ref cfg k n g s) = map (\<lambda>k. fst (init_particle cfg (sdrop (2 * k) s))) [0..<n]"
  by (induction n arbitrary: k g s) (simp_all add: init_ref_Suc Let_def map_upt_Suc del: upt_Suc)

subsection \<open>The loops keep the length of the array\<close>

lemma ParticleMove_length [simp]: "length (swarm (ParticleMove cfg st)) = length (swarm st)"
  unfolding ParticleMove_def
  by (rule for_u32_rule [where P = "\<lambda>t. length (swarm t) = length (swarm st)"])
     (simp_all add: move_body_def case_prod_unfold Let_def)

lemma ParticleInit_length [simp]: "length (swarm (ParticleInit cfg seed st)) = length (swarm st)"
  unfolding ParticleInit_def
  by (rule for_u32_rule [where P = "\<lambda>t. length (swarm t) = length (swarm st)"])
     (simp_all add: init_body_def case_prod_unfold Let_def)

lemma ParticleMove_rng:
  assumes "length (swarm st) = unat (particle_cnt cfg)"
  shows "rng (ParticleMove cfg st) = sdrop (2 * length (swarm st)) (rng st)"
  using ParticleMove_ref [OF assms] by (simp add: Let_def move_ref_rng)

lemma ParticleInit_rng:
  assumes "length (swarm st) = unat (particle_cnt cfg)"
  shows "rng (ParticleInit cfg seed st) = sdrop (2 * length (swarm st)) seed"
  using ParticleInit_ref [OF assms] assms by (simp add: Let_def init_ref_rng)

end
