(* ===== verification/Swarm_Inv.thy ===== *)
theory Swarm_Inv
  imports Swarm
begin

text \<open>
  The invariant of the optimiser's state and the facts that \<open>ParticleInit\<close> establishes
  it and \<open>ParticleMove\<close> keeps it: the array has \<open>particle_cnt\<close> particles, each
  inside the search space and the velocity limit with fitness and personal best agreeing
  with \<open>fit\<close>; and, when there is a particle, \<open>gbest\<close> is a valid particle whose
  position and fitness are the personal best of some particle and at least every personal
  best (section 8 of the spec, "consistency"). The list-level lemmas are proved over the
  reference sweeps of theory \<open>Swarm\<close>, generalised over the part already processed.
\<close>

definition gbest_is_best :: "particle list \<Rightarrow> particle \<Rightarrow> bool" where
  "gbest_is_best ps g \<longleftrightarrow>
     (\<forall>p \<in> set ps. pbest_fit p \<le> fitness g) \<and>
     (\<exists>p \<in> set ps. pbest_pos p = position g \<and> pbest_fit p = fitness g)"

definition swarm_inv :: "params \<Rightarrow> pso_state \<Rightarrow> bool" where
  "swarm_inv cfg st \<longleftrightarrow>
     length (swarm st) = unat (particle_cnt cfg) \<and>
     (\<forall>p \<in> set (swarm st). particle_ok cfg p) \<and>
     (particle_cnt cfg \<noteq> 0 \<longrightarrow> particle_ok cfg (gbest st) \<and> gbest_is_best (swarm st) (gbest st))"

text \<open>
  A concrete state for the witnesses: \<open>main\<close>'s 2000 particles, all at position 0 at
  rest, with a consistent \<open>gbest\<close>.
\<close>

definition demo_particle :: particle where
  "demo_particle = \<lparr>position = 0, velocity = 0, fitness = fit 0, pbest_pos = 0, pbest_fit = fit 0\<rparr>"

definition demo_state :: pso_state where
  "demo_state = \<lparr>swarm = replicate 2000 demo_particle, gbest = demo_particle, rng = sconst 7\<rparr>"

lemmas demo_defs = demo_state_def demo_particle_def main_params_def params_ok_def
  swarm_inv_def particle_ok_def gbest_is_best_def

subsection \<open>One sweep of moves\<close>

lemma move_ref_all_ok:
  assumes "params_ok cfg" and "\<forall>p \<in> set ps. particle_ok cfg p"
  shows "\<forall>p \<in> set (fst (move_ref cfg gpos ps g s)). particle_ok cfg p"
  using assms by (auto simp: move_ref_swarm intro!: particle_ok_move)

lemma move_ref_gbest_ok:
  assumes "params_ok cfg" and "\<forall>p \<in> set ps. particle_ok cfg p" and "particle_ok cfg g"
  shows "particle_ok cfg (fst (snd (move_ref cfg gpos ps g s)))"
  using assms
proof (induction ps arbitrary: g s)
  case Nil
  then show ?case by simp
next
  case (Cons p ps)
  have "particle_ok cfg (update_gbest (fst (move_particle cfg gpos p s)) g)"
    using update_gbest_cases [of "fst (move_particle cfg gpos p s)" g] Cons.prems
    by (auto intro: particle_ok_move)
  then show ?case using Cons by (simp add: move_ref_Cons Let_def)
qed

text \<open>
  One iteration of the sweep keeps the witness of \<open>gbest_is_best\<close>: either the moved
  particle beats \<open>gbest\<close> and is its own personal best, or \<open>gbest\<close> stays and its
  witness, if it was the moved particle, kept its personal best.
\<close>

lemma move_step_witness:
  assumes "pbest_fit p \<le> fitness g"
    and "\<exists>q \<in> set (pre @ p # ps). pbest_pos q = position g \<and> pbest_fit q = fitness g"
  shows "\<exists>q \<in> set (pre @ fst (move_particle cfg gpos p s) # ps).
           pbest_pos q = position (update_gbest (fst (move_particle cfg gpos p s)) g) \<and>
           pbest_fit q = fitness (update_gbest (fst (move_particle cfg gpos p s)) g)"
proof (cases "fitness g < fitness (fst (move_particle cfg gpos p s))")
  case True
  then have "pbest_fit p < fitness (fst (move_particle cfg gpos p s))" using assms(1) by simp
  then show ?thesis
    using True move_particle_pbest_improved [of p cfg gpos s] by (auto simp: update_gbest_def)
next
  case False
  obtain q where q: "q \<in> set (pre @ p # ps)" "pbest_pos q = position g" "pbest_fit q = fitness g"
    using assms(2) by blast
  show ?thesis
  proof (cases "q = p")
    case True
    then show ?thesis
      using False q move_particle_pbest_kept [of p cfg gpos s] by (auto simp: update_gbest_def)
  next
    case False
    then show ?thesis using q \<open>\<not> fitness g < _\<close> by (auto simp: update_gbest_def)
  qed
qed

lemma move_ref_best:
  assumes "\<forall>q \<in> set (pre @ ps). pbest_fit q \<le> fitness g"
    and "\<exists>q \<in> set (pre @ ps). pbest_pos q = position g \<and> pbest_fit q = fitness g"
  shows "gbest_is_best (pre @ fst (move_ref cfg gpos ps g s)) (fst (snd (move_ref cfg gpos ps g s)))"
  using assms
proof (induction ps arbitrary: pre g s)
  case Nil
  then show ?case by (simp add: gbest_is_best_def)
next
  case (Cons p ps)
  define p' where "p' = fst (move_particle cfg gpos p s)"
  define g1 where "g1 = update_gbest p' g"
  have g_le: "fitness g \<le> fitness g1" and p'_le: "fitness p' \<le> fitness g1"
    by (simp_all add: g1_def update_gbest_fitness_ge update_gbest_fitness_ge_new)
  have p_le: "pbest_fit p \<le> fitness g" using Cons.prems(1) by simp
  have pbest': "pbest_fit p' = max (pbest_fit p) (fitness p')"
    by (simp add: p'_def move_particle_pbest(1))
  have bound: "\<forall>q \<in> set ((pre @ [p']) @ ps). pbest_fit q \<le> fitness g1"
    using Cons.prems(1) g_le p'_le p_le pbest' by (auto intro: order_trans [OF _ g_le])
  have wit: "\<exists>q \<in> set ((pre @ [p']) @ ps). pbest_pos q = position g1 \<and> pbest_fit q = fitness g1"
    using move_step_witness [OF p_le Cons.prems(2)] by (simp add: p'_def g1_def)
  have "gbest_is_best ((pre @ [p']) @ fst (move_ref cfg gpos ps g1 (sdrop 2 s)))
      (fst (snd (move_ref cfg gpos ps g1 (sdrop 2 s))))"
    using bound wit by (rule Cons.IH)
  then show ?case by (simp add: move_ref_Cons Let_def p'_def g1_def)
qed

subsection \<open>The initialisation sweep\<close>

lemma init_ref_all_ok:
  assumes "params_ok cfg" and "rand_ok s"
  shows "\<forall>p \<in> set (fst (init_ref cfg k n g s)). particle_ok cfg p \<and> 0 \<le> velocity p"
  using assms by (auto simp: init_ref_swarm intro!: particle_ok_init [THEN conjunct1]
      particle_ok_init [THEN conjunct2])

lemma init_ref_gbest_eq:
  "0 < k \<Longrightarrow> fst (snd (init_ref cfg k n g s)) = fold update_gbest (fst (init_ref cfg k n g s)) g"
  by (induction n arbitrary: k g s) (simp_all add: init_ref_Suc Let_def update_gbest_def)

lemma init_ref_gbest_ok:
  assumes "params_ok cfg" and "rand_ok s" and "particle_ok cfg g"
  shows "particle_ok cfg (fst (snd (init_ref cfg k n g s)))"
  using assms
proof (induction n arbitrary: k g s)
  case 0
  then show ?case by simp
next
  case (Suc n)
  have "particle_ok cfg (fst (init_particle cfg s))"
    using particle_ok_init Suc.prems(1,2) by blast
  then show ?case using Suc by (simp add: init_ref_Suc Let_def)
qed

lemma init_ref_best:
  assumes "0 < k"
    and "\<forall>q \<in> set pre. pbest_fit q \<le> fitness g"
    and "\<exists>q \<in> set pre. pbest_pos q = position g \<and> pbest_fit q = fitness g"
  shows "gbest_is_best (pre @ fst (init_ref cfg k n g s)) (fst (snd (init_ref cfg k n g s)))"
  using assms
proof (induction n arbitrary: k pre g s)
  case 0
  then show ?case by (simp add: gbest_is_best_def)
next
  case (Suc n)
  define p where "p = fst (init_particle cfg s)"
  define g1 where "g1 = (if pbest_fit p > fitness g then p else g)"
  have bound: "\<forall>q \<in> set (pre @ [p]). pbest_fit q \<le> fitness g1"
    using Suc.prems(2) by (auto simp: g1_def p_def)
  have wit: "\<exists>q \<in> set (pre @ [p]). pbest_pos q = position g1 \<and> pbest_fit q = fitness g1"
    using Suc.prems(3) by (auto simp: g1_def p_def)
  have "gbest_is_best ((pre @ [p]) @ fst (init_ref cfg (Suc k) n g1 (sdrop 2 s)))
      (fst (snd (init_ref cfg (Suc k) n g1 (sdrop 2 s))))"
    using bound wit by (intro Suc.IH) simp_all
  moreover have "init_ref cfg k (Suc n) g s =
      (p # fst (init_ref cfg (Suc k) n g1 (sdrop 2 s)), snd (init_ref cfg (Suc k) n g1 (sdrop 2 s)))"
    using Suc.prems(1) by (simp add: init_ref_Suc Let_def p_def g1_def)
  ultimately show ?case by simp
qed

text \<open>
  The first iteration (\<open>i == 0\<close>) copies its particle into \<open>gbest\<close> whatever
  \<open>gbest\<close> held before; the rest of the sweep then compares.
\<close>

lemma init_ref_first:
  "init_ref cfg 0 (Suc n) g s =
     (let p = fst (init_particle cfg s); r = init_ref cfg 1 n p (sdrop 2 s) in (p # fst r, snd r))"
  by (simp add: init_ref_Suc Let_def)

subsection \<open>One iteration of the loop of \<open>ParticleMove\<close>\<close>

lemma move_body_gbest: "fitness (gbest t) \<le> fitness (gbest (move_body cfg gpos i t))"
  by (simp add: move_body_def case_prod_unfold Let_def update_gbest_fitness_ge)

lemma move_body_swarm:
  "swarm (move_body cfg gpos i t) =
     (swarm t)[unat i := fst (move_particle cfg gpos (swarm t ! unat i) (rng t))]"
  by (simp add: move_body_def case_prod_unfold Let_def)

lemma pbest_fit_update_mono:
  assumes "pbest_fit (xs ! j) \<le> pbest_fit y" and "pbest_fit (ys ! k) \<le> pbest_fit (xs ! k)"
  shows "pbest_fit (ys ! k) \<le> pbest_fit (xs[j := y] ! k)"
proof (cases "j < length xs")
  case True
  then show ?thesis using assms by (cases "k = j") (auto simp: nth_list_update intro: order_trans)
next
  case False
  then show ?thesis using assms(2) by (simp add: list_update_beyond)
qed

subsection \<open>The invariant is established and kept\<close>

lemma swarm_inv_ParticleInit:
  assumes "params_ok cfg" and "rand_ok seed" and "length (swarm st) = unat (particle_cnt cfg)"
  shows "swarm_inv cfg (ParticleInit cfg seed st)"
proof -
  let ?r = "init_ref cfg 0 (unat (particle_cnt cfg)) (gbest st) seed"
  have st': "ParticleInit cfg seed st = st\<lparr>swarm := fst ?r, gbest := fst (snd ?r), rng := snd (snd ?r)\<rparr>"
    using ParticleInit_ref [OF assms(3)] by (simp add: Let_def)
  have best: "particle_ok cfg (fst (snd ?r)) \<and> gbest_is_best (fst ?r) (fst (snd ?r))"
    if nz: "particle_cnt cfg \<noteq> 0"
  proof -
    obtain m where m: "unat (particle_cnt cfg) = Suc m"
      using unat_Suc_ex [OF nz] by blast
    define p where "p = fst (init_particle cfg seed)"
    have p_ok: "particle_ok cfg p" using particle_ok_init assms(1,2) p_def by blast
    have r: "?r = (p # fst (init_ref cfg 1 m p (sdrop 2 seed)), snd (init_ref cfg 1 m p (sdrop 2 seed)))"
      by (simp add: m init_ref_first p_def Let_def)
    have "particle_ok cfg (fst (snd (init_ref cfg 1 m p (sdrop 2 seed))))"
      using init_ref_gbest_ok assms(1,2) p_ok by simp
    moreover have "gbest_is_best ([p] @ fst (init_ref cfg 1 m p (sdrop 2 seed)))
        (fst (snd (init_ref cfg 1 m p (sdrop 2 seed))))"
      by (rule init_ref_best) (simp_all add: p_def)
    ultimately show ?thesis by (simp add: r)
  qed
  show ?thesis
    using assms init_ref_all_ok [OF assms(1,2)] best by (simp add: swarm_inv_def st')
qed

lemma swarm_inv_ParticleMove:
  assumes "params_ok cfg" and "swarm_inv cfg st"
  shows "swarm_inv cfg (ParticleMove cfg st)"
proof -
  have len: "length (swarm st) = unat (particle_cnt cfg)"
    and all: "\<forall>p \<in> set (swarm st). particle_ok cfg p"
    using assms(2) by (simp_all add: swarm_inv_def)
  let ?r = "move_ref cfg (position (gbest st)) (swarm st) (gbest st) (rng st)"
  have st': "ParticleMove cfg st = st\<lparr>swarm := fst ?r, gbest := fst (snd ?r), rng := snd (snd ?r)\<rparr>"
    using ParticleMove_ref [OF len] by (simp add: Let_def)
  have "particle_ok cfg (fst (snd ?r)) \<and> gbest_is_best (fst ?r) (fst (snd ?r))"
    if nz: "particle_cnt cfg \<noteq> 0"
  proof -
    have g: "particle_ok cfg (gbest st)" and b: "gbest_is_best (swarm st) (gbest st)"
      using assms(2) nz by (simp_all add: swarm_inv_def)
    have "gbest_is_best ([] @ fst ?r) (fst (snd ?r))"
      using b by (intro move_ref_best) (simp_all add: gbest_is_best_def)
    then show ?thesis using move_ref_gbest_ok [OF assms(1) all g] by simp
  qed
  then show ?thesis
    using len move_ref_all_ok [OF assms(1) all] by (simp add: swarm_inv_def st')
qed

lemma gbest_fitness_ParticleMove: "fitness (gbest st) \<le> fitness (gbest (ParticleMove cfg st))"
  unfolding ParticleMove_def
  by (rule for_u32_rule [where P = "\<lambda>t. fitness (gbest st) \<le> fitness (gbest t)"])
     (auto intro: order_trans [OF _ move_body_gbest])

subsection \<open>The global best after a sweep, as a fold\<close>

lemma ParticleMove_gbest_fold:
  assumes "length (swarm st) = unat (particle_cnt cfg)"
  shows "gbest (ParticleMove cfg st) = fold update_gbest (swarm (ParticleMove cfg st)) (gbest st)"
  using ParticleMove_ref [OF assms] by (simp add: Let_def move_ref_gbest)

lemma ParticleInit_gbest_fold:
  assumes "length (swarm st) = unat (particle_cnt cfg)" and "particle_cnt cfg \<noteq> 0"
  shows "swarm (ParticleInit cfg seed st) \<noteq> []
    \<and> gbest (ParticleInit cfg seed st)
        = fold update_gbest (tl (swarm (ParticleInit cfg seed st))) (hd (swarm (ParticleInit cfg seed st)))"
proof -
  obtain m where m: "unat (particle_cnt cfg) = Suc m"
    using unat_Suc_ex [OF assms(2)] by blast
  let ?p = "fst (init_particle cfg seed)"
  let ?r = "init_ref cfg 1 m ?p (sdrop 2 seed)"
  have "ParticleInit cfg seed st = st\<lparr>swarm := ?p # fst ?r, gbest := fst (snd ?r), rng := snd (snd ?r)\<rparr>"
    using ParticleInit_ref [OF assms(1)] by (simp add: m init_ref_first Let_def del: upt_Suc)
  then show ?thesis by (simp add: init_ref_gbest_eq)
qed

lemma pbest_fit_ParticleMove:
  "\<forall>k < length (swarm st). pbest_fit (swarm st ! k) \<le> pbest_fit (swarm (ParticleMove cfg st) ! k)"
proof -
  let ?P = "\<lambda>t. length (swarm t) = length (swarm st) \<and>
      (\<forall>k < length (swarm st). pbest_fit (swarm st ! k) \<le> pbest_fit (swarm t ! k))"
  have "?P (ParticleMove cfg st)"
    unfolding ParticleMove_def
  proof (rule for_u32_rule [where P = ?P])
    fix j and t :: pso_state
    assume "?P t"
    then show "?P (move_body cfg (position (gbest st)) j t)"
      by (simp add: move_body_swarm pbest_fit_update_mono move_particle_pbest(1))
  qed simp
  then show ?thesis by blast
qed

subsection \<open>Properties of the swarm\<close>

text \<open>
  C2: \<open>ParticleInit\<close> on an array of \<open>particle_cnt\<close> particles establishes the swarm
  invariant: every particle inside the search space and the velocity limit with fitness
  and personal best agreeing with \<open>fit\<close>, and \<open>gbest\<close> the best personal best.
\<close>

theorem ParticleInit_inv:
  assumes "params_ok cfg" and "rand_ok seed" and "length (swarm st) = unat (particle_cnt cfg)"
  shows "swarm_inv cfg (ParticleInit cfg seed st)"
  using assms by (rule swarm_inv_ParticleInit)

text \<open>C1: \<open>ParticleMove\<close> keeps the swarm invariant.\<close>

theorem ParticleMove_inv:
  assumes "params_ok cfg" and "swarm_inv cfg st"
  shows "swarm_inv cfg (ParticleMove cfg st)"
  using assms by (rule swarm_inv_ParticleMove)

text \<open>C6: the fitness of the global best never decreases during a sweep (section 8).\<close>

theorem ParticleMove_gbest_mono: "fitness (gbest st) \<le> fitness (gbest (ParticleMove cfg st))"
  by (rule gbest_fitness_ParticleMove)

text \<open>C7: no particle's personal best fitness decreases during a sweep (section 8).\<close>

theorem ParticleMove_pbest_mono:
  "\<forall>k < length (swarm st). pbest_fit (swarm st ! k) \<le> pbest_fit (swarm (ParticleMove cfg st) ! k)"
  by (rule pbest_fit_ParticleMove)

text \<open>
  C3: one sweep in closed form. Every particle is moved with the global best position
  read before the sweep (line 156), the \<open>k\<close>-th particle with the draws \<open>2k\<close> and
  \<open>2k+1\<close>; the global best is then the live left-to-right comparison of the moved
  particles (lines 183--184), and exactly \<open>2 * particle_cnt\<close> draws are consumed.
\<close>

theorem ParticleMove_sweep:
  assumes "length (swarm st) = unat (particle_cnt cfg)"
  shows "ParticleMove cfg st =
    (let ps' = map (\<lambda>k. fst (move_particle cfg (position (gbest st)) (swarm st ! k) (sdrop (2 * k) (rng st))))
                 [0..<length (swarm st)]
     in st\<lparr>swarm := ps', gbest := fold update_gbest ps' (gbest st),
            rng := sdrop (2 * length (swarm st)) (rng st)\<rparr>)"
  using ParticleMove_ref [OF assms] by (simp add: Let_def move_ref_gbest move_ref_rng move_ref_swarm)

text \<open>
  C15: the live comparison of lines 183--184, run over a sequence of particles, leaves in
  \<open>gbest\<close> one of them (or the old \<open>gbest\<close>) whose fitness is at least every one
  of theirs and the old one's: a running maximum.
\<close>

theorem update_gbest_fold_max:
  "fold update_gbest ps g \<in> insert g (set ps)
   \<and> fitness g \<le> fitness (fold update_gbest ps g)
   \<and> (\<forall>q \<in> set ps. fitness q \<le> fitness (fold update_gbest ps g))"
  using fold_update_gbest_mem [of ps g] fold_update_gbest_find [of g ps] by simp

text \<open>
  C16: \<open>ParticleInit\<close> in closed form: particle \<open>k\<close> is initialised from the draws
  \<open>2k\<close> and \<open>2k+1\<close> after \<open>srand\<close>; \<open>gbest\<close> starts as particle 0 (the
  \<open>i == 0\<close> guard) and is then compared live with the others, whatever it held
  before; exactly \<open>2 * particle_cnt\<close> draws are consumed.
\<close>

theorem ParticleInit_sweep:
  assumes "length (swarm st) = unat (particle_cnt cfg)" and "particle_cnt cfg \<noteq> 0"
  shows "ParticleInit cfg seed st =
    (let ps = map (\<lambda>k. fst (init_particle cfg (sdrop (2 * k) seed))) [0..<length (swarm st)]
     in st\<lparr>swarm := ps, gbest := fold update_gbest (tl ps) (hd ps),
            rng := sdrop (2 * length (swarm st)) seed\<rparr>)"
proof -
  obtain m where m: "unat (particle_cnt cfg) = Suc m"
    using unat_Suc_ex [OF assms(2)] by blast
  let ?p = "fst (init_particle cfg seed)"
  let ?r = "init_ref cfg 1 m ?p (sdrop 2 seed)"
  have r: "init_ref cfg 0 (Suc m) (gbest st) seed = (?p # fst ?r, snd ?r)"
    by (simp add: init_ref_first Let_def)
  have ps: "map (\<lambda>k. fst (init_particle cfg (sdrop (2 * k) seed))) [0..<Suc m] = ?p # fst ?r"
    using init_ref_swarm [of cfg 0 "Suc m" "gbest st" seed] by (simp add: r)
  have g: "fst (snd ?r) = fold update_gbest (fst ?r) ?p" by (simp add: init_ref_gbest_eq)
  have s: "snd (snd ?r) = sdrop (2 * Suc m) seed"
    using init_ref_rng [of cfg 0 "Suc m" "gbest st" seed] by (simp add: r)
  have eq: "ParticleInit cfg seed st =
      st\<lparr>swarm := ?p # fst ?r, gbest := fst (snd ?r), rng := snd (snd ?r)\<rparr>"
    using ParticleInit_ref [OF assms(1)] by (simp add: m r Let_def del: upt_Suc)
  show ?thesis
    unfolding eq Let_def assms(1) m ps list.sel(1) list.sel(3) g s ..
qed

text \<open>
  C25: the asymmetry of section 4.2b of the spec: \<open>ParticleInit\<close> draws every velocity
  in \<open>[0, max_v]\<close> (line 140), never a negative one, although moves allow
  \<open>[-max_v, max_v]\<close>.
\<close>

theorem ParticleInit_velocity_nonneg:
  assumes "params_ok cfg" and "rand_ok seed" and "length (swarm st) = unat (particle_cnt cfg)"
  shows "\<forall>p \<in> set (swarm (ParticleInit cfg seed st)). 0 \<le> velocity p \<and> velocity p \<le> max_v cfg"
  using init_ref_all_ok [OF assms(1,2)] ParticleInit_ref [OF assms(3)]
  by (auto simp: Let_def particle_ok_def)

subsection \<open>Witnesses\<close>

theorem ParticleInit_inv_witness:
  "params_ok main_params \<and> rand_ok (sconst 7)
   \<and> length (swarm demo_state) = unat (particle_cnt main_params)
   \<and> swarm_inv main_params (ParticleInit main_params (sconst 7) demo_state)"
  using ParticleInit_inv [of main_params "sconst 7" demo_state]
  by (simp add: main_params_def params_ok_def RAND_MAX_def demo_state_def)

theorem ParticleMove_inv_witness:
  "params_ok main_params \<and> swarm_inv main_params demo_state
   \<and> swarm_inv main_params (ParticleMove main_params demo_state)"
proof -
  have h1: "params_ok main_params" by (simp add: main_params_def params_ok_def)
  have h2: "swarm_inv main_params demo_state" by (simp add: demo_defs)
  show ?thesis using h1 h2 ParticleMove_inv [OF h1 h2] by blast
qed

theorem ParticleMove_pbest_mono_witness:
  "0 < length (swarm demo_state)
   \<and> pbest_fit (swarm demo_state ! 0) \<le> pbest_fit (swarm (ParticleMove main_params demo_state) ! 0)"
proof -
  have h: "\<forall>k < length (swarm demo_state).
      pbest_fit (swarm demo_state ! k) \<le> pbest_fit (swarm (ParticleMove main_params demo_state) ! k)"
    by (rule ParticleMove_pbest_mono)
  have "0 < length (swarm demo_state)" by (simp add: demo_state_def)
  with h show ?thesis by blast
qed

theorem ParticleMove_sweep_witness:
  "length (swarm demo_state) = unat (particle_cnt main_params)
   \<and> rng (ParticleMove main_params demo_state) = sdrop 4000 (rng demo_state)"
  using ParticleMove_sweep [of demo_state main_params]
  by (simp add: demo_state_def main_params_def Let_def)

theorem update_gbest_fold_max_witness:
  "fold update_gbest [demo_particle] zero_particle \<in> insert zero_particle (set [demo_particle])
   \<and> fitness zero_particle \<le> fitness (fold update_gbest [demo_particle] zero_particle)
   \<and> fitness demo_particle \<le> fitness (fold update_gbest [demo_particle] zero_particle)"
  using update_gbest_fold_max [of "[demo_particle]" zero_particle] by simp

theorem ParticleInit_sweep_witness:
  "length (swarm demo_state) = unat (particle_cnt main_params) \<and> particle_cnt main_params \<noteq> 0
   \<and> rng (ParticleInit main_params (sconst 7) demo_state) = sdrop 4000 (sconst 7)"
  using ParticleInit_sweep [of demo_state main_params "sconst 7"]
  by (simp add: demo_state_def main_params_def Let_def)

theorem ParticleInit_velocity_nonneg_witness:
  "params_ok main_params \<and> rand_ok (sconst 7) \<and> length (swarm demo_state) = unat (particle_cnt main_params)
   \<and> 0 \<le> velocity (swarm (ParticleInit main_params (sconst 7) demo_state) ! 0)
   \<and> velocity (swarm (ParticleInit main_params (sconst 7) demo_state) ! 0) \<le> max_v main_params"
proof -
  have h: "params_ok main_params" "rand_ok (sconst 7)" "length (swarm demo_state) = unat (particle_cnt main_params)"
    by (simp_all add: main_params_def params_ok_def RAND_MAX_def demo_state_def)
  have "swarm (ParticleInit main_params (sconst 7) demo_state) ! 0 \<in> set (swarm (ParticleInit main_params (sconst 7) demo_state))"
    by (rule nth_mem) (simp add: demo_state_def)
  then show ?thesis using h ParticleInit_velocity_nonneg [OF h] by blast
qed

end
