(* ===== verification/Driver.thy ===== *)
theory Driver
  imports Swarm_Inv
begin

text \<open>
  The driver of \<open>src/pso_linReg.c\<close>: \<open>AllocateParticle\<close> (lines 123--126),
  \<open>ParticleDisplay\<close> (lines 195--204), the iteration loop and \<open>main\<close> (lines 94--118).
  \<open>malloc\<close> is the environment's: it returns a block of the requested bytes with
  unspecified contents (\<open>junk\<close>) or \<open>NULL\<close> (\<open>avail = False\<close>). The byte count
  \<open>sizeof(particle) * particle_cnt\<close> is a \<open>size_t\<close>, 32 bits for the Win32 target of the
  compiler the header names, and wraps. Writing past the block or through \<open>NULL\<close> is
  undefined behaviour; \<open>run\<close> returns it as an error value. The reachable states of the
  program form an inductive relation, with the swarm invariant proved by rule induction.
\<close>

datatype pso_error = Null_dereference | Heap_overflow

text \<open>\<open>sizeof(particle)\<close>: five \<open>double\<close>s.\<close>

definition sizeof_particle :: u32 where
  "sizeof_particle = 40"

text \<open>Line 125: \<open>malloc(sizeof(particle)*particle_cnt)\<close>.\<close>

definition AllocateParticle :: "params \<Rightarrow> bool \<Rightarrow> (nat \<Rightarrow> particle) \<Rightarrow> particle list option" where
  "AllocateParticle cfg avail junk =
     (if avail then Some (map junk [0..<unat (sizeof_particle * particle_cnt cfg) div unat sizeof_particle])
      else None)"

text \<open>Line 203: the values \<open>printf\<close> prints.\<close>

definition ParticleDisplay :: "pso_state \<Rightarrow> real \<times> real" where
  "ParticleDisplay st = (position (gbest st), fitness (gbest st))"

text \<open>Lines 110--111: \<open>for(i=0; i<max_itera; i++) ParticleMove(p);\<close>\<close>

definition main_loop :: "params \<Rightarrow> u32 \<Rightarrow> pso_state \<Rightarrow> pso_state" where
  "main_loop cfg max_itera st = for_u32 0 max_itera (\<lambda>_. ParticleMove cfg) st"

text \<open>
  Lines 189--192: \<open>free(p)\<close>. The array is gone; \<open>gbest\<close>, a global holding a copy
  (lines 146, 184), and the random state remain.
\<close>

definition ParticleRelease :: "pso_state \<Rightarrow> pso_state" where
  "ParticleRelease st = st\<lparr>swarm := []\<rparr>"

text \<open>
  Lines 108--116 for parameters \<open>cfg\<close> and \<open>max_itera\<close>: allocate, initialise (the
  global \<open>gbest\<close> is still zero), iterate, print \<open>gbest\<close>, release the array, print
  the reference value. The result is the printed values and the final state.
  The loops write \<open>p[0]\<close> \<dots> \<open>p[particle_cnt-1]\<close>: through \<open>NULL\<close> when there is a
  particle and the allocation failed, past the block when it is shorter.
\<close>

definition run_block :: "params \<Rightarrow> u32 \<Rightarrow> particle list \<Rightarrow> rand_stream
    \<Rightarrow> pso_error + (real \<times> real) list \<times> pso_state" where
  "run_block cfg max_itera blk seed =
     (if length blk < unat (particle_cnt cfg) then Inl Heap_overflow
      else let st = main_loop cfg max_itera
                 (ParticleInit cfg seed \<lparr>swarm = blk, gbest = zero_particle, rng = seed\<rparr>);
               best = ParticleDisplay st;
               st' = ParticleRelease st
           in Inr ([best, (-57.469, fit (-57.469))], st'))"

definition run :: "params \<Rightarrow> u32 \<Rightarrow> bool \<Rightarrow> (nat \<Rightarrow> particle) \<Rightarrow> rand_stream
    \<Rightarrow> pso_error + (real \<times> real) list \<times> pso_state" where
  "run cfg max_itera avail junk seed =
     (case AllocateParticle cfg avail junk of
        None \<Rightarrow> if particle_cnt cfg = 0 then run_block cfg max_itera [] seed else Inl Null_dereference
      | Some blk \<Rightarrow> run_block cfg max_itera blk seed)"

text \<open>\<open>main\<close>: the parameters of lines 102--105 and \<open>max_itera = 100000\<close> (line 98).\<close>

definition main :: "bool \<Rightarrow> (nat \<Rightarrow> particle) \<Rightarrow> rand_stream \<Rightarrow> pso_error + (real \<times> real) list \<times> pso_state" where
  "main avail junk seed = run main_params 100000 avail junk seed"

subsection \<open>Reachable states\<close>

text \<open>
  The states the program reaches after \<open>ParticleInit\<close> on a block of
  \<open>particle_cnt\<close> particles and any number of \<open>ParticleMove\<close>s.
\<close>

inductive reachable :: "params \<Rightarrow> pso_state \<Rightarrow> bool" for cfg :: params where
  init: "rand_ok seed \<Longrightarrow> length blk = unat (particle_cnt cfg) \<Longrightarrow>
    reachable cfg (ParticleInit cfg seed \<lparr>swarm = blk, gbest = zero_particle, rng = s0\<rparr>)"
| move: "reachable cfg st \<Longrightarrow> reachable cfg (ParticleMove cfg st)"

inductive_cases reachable_moveE: "reachable cfg (ParticleMove cfg st)"

subsection \<open>Shared lemmas\<close>

lemma for_u32_const_body:
  "for_u32 i n (\<lambda>_. f) s = (f ^^ (unat n - unat i)) s"
proof (induction i n "\<lambda>_::u32. f" s rule: for_u32.induct)
  case (1 i n s)
  show ?case
  proof (cases "i < n")
    case True
    then have "unat n - unat i = Suc (unat n - unat (i + 1))"
      by (simp add: unat_inc_lt word_less_nat_alt)
    then show ?thesis using "1" True by (simp add: for_u32_step funpow_Suc_right del: funpow.simps)
  next
    case False
    then show ?thesis by (simp add: for_u32_stop word_less_nat_alt)
  qed
qed

lemma main_loop_funpow: "main_loop cfg n st = (ParticleMove cfg ^^ unat n) st"
  by (simp add: main_loop_def for_u32_const_body)

lemma reachable_funpow: "reachable cfg st \<Longrightarrow> reachable cfg ((ParticleMove cfg ^^ k) st)"
  by (induction k) (simp_all add: reachable.move)

lemma reachable_swarm_inv: "reachable cfg st \<Longrightarrow> params_ok cfg \<Longrightarrow> swarm_inv cfg st"
proof (induction rule: reachable.induct)
  case (init seed blk s0)
  then show ?case by (intro swarm_inv_ParticleInit) simp_all
next
  case (move st)
  then show ?case by (intro swarm_inv_ParticleMove) simp_all
qed

lemma main_alloc: "AllocateParticle main_params True junk = Some (map junk [0..<2000])"
  by (simp add: AllocateParticle_def sizeof_particle_def main_params_def)

lemma ParticleMove_no_particles: "particle_cnt cfg = 0 \<Longrightarrow> ParticleMove cfg st = st"
  by (simp add: ParticleMove_def for_u32_stop)

lemma ParticleInit_no_particles: "particle_cnt cfg = 0 \<Longrightarrow> ParticleInit cfg seed st = st\<lparr>rng := seed\<rparr>"
  by (simp add: ParticleInit_def for_u32_stop)

lemma funpow_fixed: "f s = s \<Longrightarrow> (f ^^ k) s = s"
  by (induction k) simp_all

lemma alloc_wrap_short:
  assumes "2 ^ 32 \<le> unat (particle_cnt cfg) * 40"
  shows "unat (sizeof_particle * particle_cnt cfg) div 40 < unat (particle_cnt cfg)"
proof -
  let ?n = "unat (particle_cnt cfg)"
  have "unat (sizeof_particle * particle_cnt cfg) = (40 * ?n) mod 2 ^ 32"
    by (simp add: sizeof_particle_def unat_word_ariths)
  also have "\<dots> < 40 * ?n"
    using assms by (metis mod_less_divisor mult.commute order.strict_trans2 zero_less_numeral
        zero_less_power)
  finally show ?thesis by simp
qed

subsection \<open>Properties of the program\<close>

text \<open>
  C5: in every reachable state, every particle is inside the search space and the
  velocity limit, and (with at least one particle) no personal best exceeds the global
  best: the bounds invariant and the consistency property of section 8.
\<close>

theorem reachable_bounds:
  assumes "reachable cfg st" and "params_ok cfg"
  shows "\<forall>p \<in> set (swarm st).
           min_pos cfg \<le> position p \<and> position p \<le> max_pos cfg \<and>
           - max_v cfg \<le> velocity p \<and> velocity p \<le> max_v cfg \<and>
           (particle_cnt cfg \<noteq> 0 \<longrightarrow> pbest_fit p \<le> fitness (gbest st))"
  using reachable_swarm_inv [OF assms]
  by (auto simp: swarm_inv_def particle_ok_def gbest_is_best_def)

theorem reachable_bounds_witness:
  "reachable main_params (ParticleInit main_params (sconst 7) \<lparr>swarm = replicate 2000 zero_particle, gbest = zero_particle, rng = sconst 0\<rparr>)
   \<and> params_ok main_params
   \<and> min_pos main_params \<le> position (swarm (ParticleInit main_params (sconst 7) \<lparr>swarm = replicate 2000 zero_particle, gbest = zero_particle, rng = sconst 0\<rparr>) ! 0)
   \<and> position (swarm (ParticleInit main_params (sconst 7) \<lparr>swarm = replicate 2000 zero_particle, gbest = zero_particle, rng = sconst 0\<rparr>) ! 0) \<le> max_pos main_params
   \<and> - max_v main_params \<le> velocity (swarm (ParticleInit main_params (sconst 7) \<lparr>swarm = replicate 2000 zero_particle, gbest = zero_particle, rng = sconst 0\<rparr>) ! 0)
   \<and> velocity (swarm (ParticleInit main_params (sconst 7) \<lparr>swarm = replicate 2000 zero_particle, gbest = zero_particle, rng = sconst 0\<rparr>) ! 0) \<le> max_v main_params
   \<and> pbest_fit (swarm (ParticleInit main_params (sconst 7) \<lparr>swarm = replicate 2000 zero_particle, gbest = zero_particle, rng = sconst 0\<rparr>) ! 0) \<le> fitness (gbest (ParticleInit main_params (sconst 7) \<lparr>swarm = replicate 2000 zero_particle, gbest = zero_particle, rng = sconst 0\<rparr>))"
proof -
  have r: "reachable main_params (ParticleInit main_params (sconst 7) \<lparr>swarm = replicate 2000 zero_particle, gbest = zero_particle, rng = sconst 0\<rparr>)"
    by (rule reachable.init) (simp_all add: RAND_MAX_def main_params_def)
  have p: "params_ok main_params" by (simp add: main_params_def params_ok_def)
  have "length (swarm (ParticleInit main_params (sconst 7) \<lparr>swarm = replicate 2000 zero_particle, gbest = zero_particle, rng = sconst 0\<rparr>)) = 2000"
    by (simp add: ParticleInit_ref Let_def main_params_def)
  then have "swarm (ParticleInit main_params (sconst 7) \<lparr>swarm = replicate 2000 zero_particle, gbest = zero_particle, rng = sconst 0\<rparr>) ! 0 \<in> set (swarm (ParticleInit main_params (sconst 7) \<lparr>swarm = replicate 2000 zero_particle, gbest = zero_particle, rng = sconst 0\<rparr>))" by simp
  moreover have "particle_cnt main_params \<noteq> 0" by (simp add: main_params_def)
  ultimately show ?thesis using r p reachable_bounds [OF r p] by blast
qed

text \<open>
  C10: the byte count \<open>sizeof(particle)*particle_cnt\<close> is a 32-bit \<open>size_t\<close>; from
  \<open>particle_cnt \<ge> 2\<^sup>3\<^sup>2/40\<close> it wraps, the block holds fewer than \<open>particle_cnt\<close>
  particles, and the loops write past its end.
\<close>

theorem run_alloc_wraps:
  assumes "2 ^ 32 \<le> unat (particle_cnt cfg) * 40"
  shows "run cfg n True junk seed = Inl Heap_overflow"
proof -
  have "particle_cnt cfg \<noteq> 0" using assms by (auto simp: unat_eq_zero)
  then show ?thesis
    using alloc_wrap_short [OF assms]
    by (simp add: run_def run_block_def AllocateParticle_def sizeof_particle_def)
qed

theorem run_alloc_wraps_witness:
  "2 ^ 32 \<le> unat (particle_cnt (main_params\<lparr>particle_cnt := 107374183\<rparr>)) * 40
   \<and> run (main_params\<lparr>particle_cnt := 107374183\<rparr>) 100000 True (\<lambda>_. zero_particle) (sconst 0) = Inl Heap_overflow"
  using run_alloc_wraps [of "main_params\<lparr>particle_cnt := 107374183\<rparr>" 100000 "\<lambda>_. zero_particle" "sconst 0"]
  by simp

text \<open>
  C11: with no particle, nothing sets \<open>gbest\<close>: the program prints the zero record, a
  fitness of \<open>0\<close> at position \<open>0\<close>, where \<open>fit 0 = 8000\<close>.
\<close>

theorem run_no_particles:
  assumes "particle_cnt cfg = 0"
  shows "run cfg n avail junk seed =
      Inr ([(0, 0), (-57.469, fit (-57.469))], \<lparr>swarm = [], gbest = zero_particle, rng = seed\<rparr>)
    \<and> fit 0 \<noteq> 0"
proof -
  have blk: "run cfg n avail junk seed = run_block cfg n [] seed"
    using assms by (simp add: run_def AllocateParticle_def)
  have "main_loop cfg n (ParticleInit cfg seed \<lparr>swarm = [], gbest = zero_particle, rng = seed\<rparr>)
      = \<lparr>swarm = [], gbest = zero_particle, rng = seed\<rparr>"
    using assms by (simp add: main_loop_def for_u32_const_body ParticleInit_no_particles
        ParticleMove_no_particles funpow_fixed)
  then show ?thesis
    using blk assms by (simp add: run_block_def ParticleDisplay_def ParticleRelease_def zero_particle_def fit_def)
qed

theorem run_no_particles_witness:
  "particle_cnt (main_params\<lparr>particle_cnt := 0\<rparr>) = 0
   \<and> run (main_params\<lparr>particle_cnt := 0\<rparr>) 100000 True (\<lambda>_. zero_particle) (sconst 0) =
       Inr ([(0, 0), (-57.469, fit (-57.469))], \<lparr>swarm = [], gbest = zero_particle, rng = sconst 0\<rparr>)
   \<and> fit 0 \<noteq> 0"
  using run_no_particles [of "main_params\<lparr>particle_cnt := 0\<rparr>" 100000 True "\<lambda>_. zero_particle" "sconst 0"] by simp

end
