(* ===== verification/Scenarios.thy ===== *)
theory Scenarios
  imports Driver
begin

text \<open>
  The scenarios of section 8 of the spec, run against the model of the code: with
  \<open>w = c1 = c2 = 0\<close> a sweep stops every particle where it is; with \<open>w = 1\<close> and
  \<open>c1 = c2 = 0\<close> a sweep is a deterministic drift at constant velocity, not a random
  walk, and every particle reaches \<open>max_pos\<close> in finitely many sweeps when it moves
  right; with one particle \<open>gbest\<close> tracks the particle's personal best in every reachable
  state, not its current fitness as the spec's "equal at every step" says.
\<close>

text \<open>A state for the witness of the drift: 2000 particles at 0 moving right at speed 1.\<close>

definition drift_particle :: particle where
  "drift_particle = \<lparr>position = 0, velocity = 1, fitness = fit 0, pbest_pos = 0, pbest_fit = fit 0\<rparr>"

definition drift_state :: pso_state where
  "drift_state = \<lparr>swarm = replicate 2000 drift_particle, gbest = drift_particle, rng = sconst 7\<rparr>"

subsection \<open>Shared lemmas\<close>

lemma sweep_swarm:
  assumes "length (swarm st) = unat (particle_cnt cfg)"
  shows "swarm (ParticleMove cfg st) =
    map (\<lambda>k. fst (move_particle cfg (position (gbest st)) (swarm st ! k) (sdrop (2 * k) (rng st))))
      [0..<length (swarm st)]"
  using ParticleMove_ref [OF assms] by (simp add: Let_def move_ref_swarm)

lemma move_particle_no_attraction:
  assumes "c1 cfg = 0" and "c2 cfg = 0" and "params_ok cfg" and "particle_ok cfg p"
  shows "velocity (fst (move_particle cfg gpos p s)) = clamp_velocity (max_v cfg) (w cfg * velocity p)"
    and "position (fst (move_particle cfg gpos p s)) =
           clamp_position (min_pos cfg) (max_pos cfg) (position p + clamp_velocity (max_v cfg) (w cfg * velocity p))"
  using assms by (simp_all add: move_particle_eq Let_def)

lemma map_nth_upt: "map (\<lambda>k. f (xs ! k)) [0..<length xs] = map f xs"
  by (rule nth_equalityI) simp_all

lemma sweep_map:
  assumes "length (swarm st) = unat (particle_cnt cfg)"
    and "\<And>p s. p \<in> set (swarm st) \<Longrightarrow> h (fst (move_particle cfg (position (gbest st)) p s)) = f p"
  shows "map h (swarm (ParticleMove cfg st)) = map f (swarm st)"
proof -
  have "map h (swarm (ParticleMove cfg st)) =
      map (\<lambda>k. f (swarm st ! k)) [0..<length (swarm st)]"
    using assms by (simp add: sweep_swarm)
  then show ?thesis by (simp add: map_nth_upt)
qed

lemma swarm_inv_parts:
  assumes "swarm_inv cfg st"
  shows "length (swarm st) = unat (particle_cnt cfg)" and "\<And>p. p \<in> set (swarm st) \<Longrightarrow> particle_ok cfg p"
  using assms by (simp_all add: swarm_inv_def)

subsection \<open>The scenarios\<close>

text \<open>
  C13: with \<open>w = c1 = c2 = 0\<close> one sweep sets every velocity to 0 and leaves every
  position where it was (section 8: "velocity collapses to 0 after one iteration").
\<close>

theorem sweep_frozen:
  assumes "w cfg = 0" and "c1 cfg = 0" and "c2 cfg = 0" and "params_ok cfg" and "swarm_inv cfg st"
  shows "map velocity (swarm (ParticleMove cfg st)) = map (\<lambda>_. 0) (swarm st)
       \<and> map position (swarm (ParticleMove cfg st)) = map position (swarm st)"
proof -
  note inv = swarm_inv_parts [OF assms(5)]
  have mv: "0 \<le> max_v cfg" using assms(4) by (simp add: params_ok_def)
  have "map velocity (swarm (ParticleMove cfg st)) = map (\<lambda>_. 0) (swarm st)"
    using inv mv assms(1-4) by (intro sweep_map) (simp_all add: move_particle_no_attraction clamp_velocity_def)
  moreover have stay: "clamp_position (min_pos cfg) (max_pos cfg) (position p + 0) = position p"
    if "p \<in> set (swarm st)" for p
    using inv(2) [OF that] by (simp add: clamp_position_id particle_ok_def)
  have "map position (swarm (ParticleMove cfg st)) = map position (swarm st)"
    using inv mv assms(1-4) stay
    by (intro sweep_map) (simp_all add: move_particle_no_attraction clamp_velocity_def)
  ultimately show ?thesis by (rule conjI)
qed

theorem sweep_frozen_witness:
  "w (main_params\<lparr>w := 0, c1 := 0, c2 := 0\<rparr>) = 0 \<and> c1 (main_params\<lparr>w := 0, c1 := 0, c2 := 0\<rparr>) = 0
   \<and> c2 (main_params\<lparr>w := 0, c1 := 0, c2 := 0\<rparr>) = 0 \<and> params_ok (main_params\<lparr>w := 0, c1 := 0, c2 := 0\<rparr>)
   \<and> swarm_inv (main_params\<lparr>w := 0, c1 := 0, c2 := 0\<rparr>) demo_state
   \<and> map velocity (swarm (ParticleMove (main_params\<lparr>w := 0, c1 := 0, c2 := 0\<rparr>) demo_state))
       = map (\<lambda>_. 0) (swarm demo_state)
   \<and> map position (swarm (ParticleMove (main_params\<lparr>w := 0, c1 := 0, c2 := 0\<rparr>) demo_state))
       = map position (swarm demo_state)"
proof -
  have h: "params_ok (main_params\<lparr>w := 0, c1 := 0, c2 := 0\<rparr>)"
    "swarm_inv (main_params\<lparr>w := 0, c1 := 0, c2 := 0\<rparr>) demo_state"
    by (simp_all add: demo_defs)
  show ?thesis using h sweep_frozen [OF _ _ _ h] by simp
qed

text \<open>
  C14: with \<open>w = 1\<close> and \<open>c1 = c2 = 0\<close> a sweep keeps every velocity and moves every
  particle by it, clamped to the search space: the draws of \<open>rand()\<close> play no part, so
  the particle drifts deterministically (section 8 calls it a random walk).
\<close>

theorem sweep_drift:
  assumes "w cfg = 1" and "c1 cfg = 0" and "c2 cfg = 0" and "params_ok cfg" and "swarm_inv cfg st"
  shows "map velocity (swarm (ParticleMove cfg st)) = map velocity (swarm st)
       \<and> map position (swarm (ParticleMove cfg st)) =
         map (\<lambda>p. clamp_position (min_pos cfg) (max_pos cfg) (position p + velocity p)) (swarm st)"
proof -
  note inv = swarm_inv_parts [OF assms(5)]
  have keep: "clamp_velocity (max_v cfg) (velocity p) = velocity p" if "p \<in> set (swarm st)" for p
    using inv(2) [OF that] by (intro clamp_velocity_id) (simp_all add: particle_ok_def)
  have "map velocity (swarm (ParticleMove cfg st)) = map velocity (swarm st)"
    using inv assms(1-4) keep by (intro sweep_map) (simp_all add: move_particle_no_attraction)
  moreover have "map position (swarm (ParticleMove cfg st)) =
      map (\<lambda>p. clamp_position (min_pos cfg) (max_pos cfg) (position p + velocity p)) (swarm st)"
    using inv assms(1-4) keep by (intro sweep_map) (simp_all add: move_particle_no_attraction)
  ultimately show ?thesis ..
qed

theorem sweep_drift_witness:
  "w (main_params\<lparr>c1 := 0, c2 := 0\<rparr>) = 1 \<and> c1 (main_params\<lparr>c1 := 0, c2 := 0\<rparr>) = 0
   \<and> c2 (main_params\<lparr>c1 := 0, c2 := 0\<rparr>) = 0 \<and> params_ok (main_params\<lparr>c1 := 0, c2 := 0\<rparr>)
   \<and> swarm_inv (main_params\<lparr>c1 := 0, c2 := 0\<rparr>) demo_state
   \<and> map velocity (swarm (ParticleMove (main_params\<lparr>c1 := 0, c2 := 0\<rparr>) demo_state))
       = map velocity (swarm demo_state)
   \<and> map position (swarm (ParticleMove (main_params\<lparr>c1 := 0, c2 := 0\<rparr>) demo_state)) =
       map (\<lambda>p. clamp_position (min_pos (main_params\<lparr>c1 := 0, c2 := 0\<rparr>)) (max_pos (main_params\<lparr>c1 := 0, c2 := 0\<rparr>))
         (position p + velocity p)) (swarm demo_state)"
proof -
  have h: "w (main_params\<lparr>c1 := 0, c2 := 0\<rparr>) = 1" "params_ok (main_params\<lparr>c1 := 0, c2 := 0\<rparr>)"
    "swarm_inv (main_params\<lparr>c1 := 0, c2 := 0\<rparr>) demo_state"
    by (simp_all add: demo_defs)
  show ?thesis using h sweep_drift [OF h(1) _ _ h(2,3)] by simp
qed

text \<open>
  C12: with one particle, \<open>gbest\<close> holds the particle's personal best fitness in every
  reachable state.
\<close>

theorem one_particle_gbest_is_pbest:
  assumes "reachable cfg st" and "params_ok cfg" and "particle_cnt cfg = 1"
  shows "fitness (gbest st) = pbest_fit (swarm st ! 0)"
proof -
  have inv: "swarm_inv cfg st" using reachable_swarm_inv assms(1,2) .
  then obtain p where p: "swarm st = [p]"
    using assms(3) by (auto simp: swarm_inv_def length_Suc_conv)
  then show ?thesis using inv assms(3) by (auto simp: swarm_inv_def gbest_is_best_def)
qed

theorem one_particle_gbest_is_pbest_witness:
  "reachable (main_params\<lparr>c1 := 0, c2 := 0, particle_cnt := 1\<rparr>) (ParticleInit (main_params\<lparr>c1 := 0, c2 := 0, particle_cnt := 1\<rparr>) (cycle [13951, 32767])
      \<lparr>swarm = [zero_particle], gbest = zero_particle, rng = sconst 0\<rparr>)
   \<and> params_ok (main_params\<lparr>c1 := 0, c2 := 0, particle_cnt := 1\<rparr>) \<and> particle_cnt (main_params\<lparr>c1 := 0, c2 := 0, particle_cnt := 1\<rparr>) = 1
   \<and> fitness (gbest (ParticleInit (main_params\<lparr>c1 := 0, c2 := 0, particle_cnt := 1\<rparr>) (cycle [13951, 32767])
        \<lparr>swarm = [zero_particle], gbest = zero_particle, rng = sconst 0\<rparr>))
     = pbest_fit (swarm (ParticleInit (main_params\<lparr>c1 := 0, c2 := 0, particle_cnt := 1\<rparr>) (cycle [13951, 32767])
        \<lparr>swarm = [zero_particle], gbest = zero_particle, rng = sconst 0\<rparr>) ! 0)"
proof -
  have r: "reachable (main_params\<lparr>c1 := 0, c2 := 0, particle_cnt := 1\<rparr>) (ParticleInit (main_params\<lparr>c1 := 0, c2 := 0, particle_cnt := 1\<rparr>) (cycle [13951, 32767])
      \<lparr>swarm = [zero_particle], gbest = zero_particle, rng = sconst 0\<rparr>)"
    by (rule reachable.init) (simp_all add: rand_ok_def RAND_MAX_def main_params_def)
  have h: "params_ok (main_params\<lparr>c1 := 0, c2 := 0, particle_cnt := 1\<rparr>)" "particle_cnt (main_params\<lparr>c1 := 0, c2 := 0, particle_cnt := 1\<rparr>) = 1"
    by (simp_all add: main_params_def params_ok_def)
  show ?thesis using r h one_particle_gbest_is_pbest [OF r h] by blast
qed

subsection \<open>Liveness of the drift\<close>

lemma drift_sweep_nth:
  assumes "w cfg = 1" and "c1 cfg = 0" and "c2 cfg = 0" and "params_ok cfg"
    and "swarm_inv cfg st" and "j < length (swarm st)"
  shows "velocity (swarm (ParticleMove cfg st) ! j) = velocity (swarm st ! j)
       \<and> position (swarm (ParticleMove cfg st) ! j) =
         clamp_position (min_pos cfg) (max_pos cfg) (position (swarm st ! j) + velocity (swarm st ! j))"
proof -
  note inv = swarm_inv_parts [OF assms(5)]
  have ok: "particle_ok cfg (swarm st ! j)" using inv(2) assms(6) by simp
  have "swarm (ParticleMove cfg st) ! j =
      fst (move_particle cfg (position (gbest st)) (swarm st ! j) (sdrop (2 * j) (rng st)))"
    using sweep_swarm [OF inv(1)] assms(6) by simp
  then show ?thesis
    using move_particle_no_attraction [OF assms(2,3,4) ok] assms(1) ok
    by (simp add: clamp_velocity_id particle_ok_def)
qed

lemma clamp_drift:
  "lo \<le> x \<Longrightarrow> lo \<le> hi \<Longrightarrow> 0 \<le> v \<Longrightarrow> clamp_position lo hi (min hi x + v) = min hi (x + v)"
  by (auto simp: clamp_position_def min_def)

lemma drift_iterate:
  assumes "w cfg = 1" and "c1 cfg = 0" and "c2 cfg = 0" and "params_ok cfg"
    and "swarm_inv cfg st" and "\<forall>p \<in> set (swarm st). 0 \<le> velocity p"
  shows "swarm_inv cfg ((ParticleMove cfg ^^ k) st)
    \<and> length (swarm ((ParticleMove cfg ^^ k) st)) = length (swarm st)
    \<and> (\<forall>j < length (swarm st).
         velocity (swarm ((ParticleMove cfg ^^ k) st) ! j) = velocity (swarm st ! j)
       \<and> position (swarm ((ParticleMove cfg ^^ k) st) ! j) =
           min (max_pos cfg) (position (swarm st ! j) + real k * velocity (swarm st ! j)))"
proof (induction k)
  case 0
  have "position (swarm st ! j) \<le> max_pos cfg" if "j < length (swarm st)" for j
    using swarm_inv_parts(2) [OF assms(5)] that by (simp add: particle_ok_def)
  then show ?case using assms(5) by (fastforce simp: min_def intro: antisym)
next
  case (Suc k)
  let ?t = "(ParticleMove cfg ^^ k) st"
  have inv': "swarm_inv cfg (ParticleMove cfg ?t)"
    using Suc.IH assms(4) by (intro swarm_inv_ParticleMove) simp_all
  have lohi: "min_pos cfg \<le> max_pos cfg" using assms(4) by (simp add: params_ok_def)
  have step: "velocity (swarm (ParticleMove cfg ?t) ! j) = velocity (swarm st ! j)
      \<and> position (swarm (ParticleMove cfg ?t) ! j) =
        min (max_pos cfg) (position (swarm st ! j) + real (Suc k) * velocity (swarm st ! j))"
    if j: "j < length (swarm st)" for j
  proof -
    have ok: "particle_ok cfg (swarm st ! j)" and v: "0 \<le> velocity (swarm st ! j)"
      using swarm_inv_parts(2) [OF assms(5)] assms(6) j by simp_all
    have "min_pos cfg \<le> position (swarm st ! j) + real k * velocity (swarm st ! j)"
      using ok v by (simp add: particle_ok_def add_increasing2)
    moreover have "real (Suc k) * velocity (swarm st ! j) = real k * velocity (swarm st ! j) + velocity (swarm st ! j)"
      by (simp add: algebra_simps)
    ultimately show ?thesis
      using drift_sweep_nth [OF assms(1-4), of ?t j] Suc.IH j v lohi
      by (simp add: clamp_drift add.assoc)
  qed
  then show ?case using inv' Suc.IH by simp
qed

lemma exists_uniform_bound:
  assumes "\<forall>j < (n::nat). \<exists>k::nat. P j k" and "\<And>j k k'. P j k \<Longrightarrow> k \<le> k' \<Longrightarrow> P j k'"
  shows "\<exists>k. \<forall>j < n. P j k"
proof -
  obtain K where K: "\<forall>j < n. P j (K j)" using assms(1) by metis
  have "K j \<le> Max (insert 0 (K ` {..<n}))" if "j < n" for j
    using that by (intro Max_ge) auto
  then show ?thesis using K assms(2) by blast
qed

text \<open>
  C18: with \<open>w = 1\<close>, \<open>c1 = c2 = 0\<close> and every particle moving right, the swarm
  eventually sits at \<open>max_pos\<close>: there is a number of sweeps after which every
  particle's position is the upper bound (and it stays there, C14).
\<close>

theorem drift_reaches_max_pos:
  assumes "w cfg = 1" and "c1 cfg = 0" and "c2 cfg = 0" and "params_ok cfg"
    and "swarm_inv cfg st" and "\<forall>p \<in> set (swarm st). 0 < velocity p"
  shows "\<exists>k. \<forall>p \<in> set (swarm ((ParticleMove cfg ^^ k) st)). position p = max_pos cfg"
proof -
  let ?n = "length (swarm st)"
  let ?P = "\<lambda>j k. max_pos cfg \<le> position (swarm st ! j) + real k * velocity (swarm st ! j)"
  have ex: "\<forall>j < ?n. \<exists>k. ?P j k"
  proof (intro allI impI)
    fix j assume j: "j < ?n"
    then have v: "0 < velocity (swarm st ! j)" using assms(6) by simp
    obtain k :: nat where "(max_pos cfg - position (swarm st ! j)) / velocity (swarm st ! j) < real k"
      using reals_Archimedean2 by blast
    then have "?P j k" using v by (simp add: pos_divide_less_eq)
    then show "\<exists>k. ?P j k" ..
  qed
  have mono: "?P j k'" if "?P j k" and "k \<le> k'" and "j < ?n" for j k k'
  proof -
    have "0 < velocity (swarm st ! j)" using assms(6) that(3) by simp
    then have "real k * velocity (swarm st ! j) \<le> real k' * velocity (swarm st ! j)"
      using that(2) by (simp add: mult_right_mono)
    then show ?thesis using that(1) by linarith
  qed
  obtain k where k: "\<forall>j < ?n. ?P j k"
    using exists_uniform_bound [where P = "\<lambda>j k. j < ?n \<longrightarrow> ?P j k"] ex mono by blast
  have it: "\<forall>j < ?n. position (swarm ((ParticleMove cfg ^^ k) st) ! j) = max_pos cfg"
    and len: "length (swarm ((ParticleMove cfg ^^ k) st)) = ?n"
    using drift_iterate [OF assms(1-5), of k] assms(6) k by (auto simp: min_def less_imp_le)
  show ?thesis
  proof (intro exI ballI)
    fix p assume "p \<in> set (swarm ((ParticleMove cfg ^^ k) st))"
    then obtain j where "j < ?n" "p = swarm ((ParticleMove cfg ^^ k) st) ! j"
      using len by (auto simp: in_set_conv_nth)
    then show "position p = max_pos cfg" using it by simp
  qed
qed

theorem drift_reaches_max_pos_witness:
  "w (main_params\<lparr>c1 := 0, c2 := 0\<rparr>) = 1 \<and> c1 (main_params\<lparr>c1 := 0, c2 := 0\<rparr>) = 0
   \<and> c2 (main_params\<lparr>c1 := 0, c2 := 0\<rparr>) = 0 \<and> params_ok (main_params\<lparr>c1 := 0, c2 := 0\<rparr>)
   \<and> swarm_inv (main_params\<lparr>c1 := 0, c2 := 0\<rparr>) drift_state
   \<and> 0 < velocity (swarm drift_state ! 0)
   \<and> (\<exists>k. \<forall>p \<in> set (swarm ((ParticleMove (main_params\<lparr>c1 := 0, c2 := 0\<rparr>) ^^ k) drift_state)).
          position p = max_pos (main_params\<lparr>c1 := 0, c2 := 0\<rparr>))"
proof -
  have h: "w (main_params\<lparr>c1 := 0, c2 := 0\<rparr>) = 1" "c1 (main_params\<lparr>c1 := 0, c2 := 0\<rparr>) = 0"
    "c2 (main_params\<lparr>c1 := 0, c2 := 0\<rparr>) = 0" "params_ok (main_params\<lparr>c1 := 0, c2 := 0\<rparr>)"
    "swarm_inv (main_params\<lparr>c1 := 0, c2 := 0\<rparr>) drift_state"
    "\<forall>p \<in> set (swarm drift_state). 0 < velocity p"
    by (simp_all add: main_params_def params_ok_def swarm_inv_def particle_ok_def gbest_is_best_def
        drift_state_def drift_particle_def)
  have "0 < velocity (swarm drift_state ! 0)" by (simp add: drift_state_def drift_particle_def)
  then show ?thesis using h drift_reaches_max_pos [OF h] by blast
qed

end
