(* ===== verification/Order.thy ===== *)
theory Order
  imports Swarm_Inv
begin

text \<open>
  The evaluation order of line 164 of \<open>src/pso_linReg.c\<close> at the level of a whole
  sweep. The two \<open>RND()\<close> calls are operands of one \<open>+\<close>, so a compiler may draw
  \<open>r2\<close> before \<open>r1\<close>. \<open>ParticleMove_rl\<close> is \<open>ParticleMove\<close> (lines 151--186)
  compiled that way, with the one-particle move \<open>move_particle_rl\<close>. It is the
  left-to-right sweep run on the stream in which each pair of draws is swapped
  (\<open>swap_pairs\<close>, an involution on streams), and consumes the same draws; hence the
  swarm invariant and the monotonicity of the global best hold for either compiler.
\<close>

text \<open>The stream with the values at \<open>2k\<close> and \<open>2k + 1\<close> exchanged, for every \<open>k\<close>.\<close>

definition swap_pairs :: "'a stream \<Rightarrow> 'a stream" where
  "swap_pairs s = smap (\<lambda>i. s !! (if even i then Suc i else i - 1)) nats"

text \<open>Lines 160--184 and 151--186 with the right operand of line 164 evaluated first.\<close>

definition move_body_rl :: "params \<Rightarrow> real \<Rightarrow> u32 \<Rightarrow> pso_state \<Rightarrow> pso_state" where
  "move_body_rl cfg gpos i st =
     (let (p, s) = move_particle_rl cfg gpos (swarm st ! unat i) (rng st)
      in st\<lparr>swarm := (swarm st)[unat i := p], gbest := update_gbest p (gbest st), rng := s\<rparr>)"

definition ParticleMove_rl :: "params \<Rightarrow> pso_state \<Rightarrow> pso_state" where
  "ParticleMove_rl cfg st = for_u32 0 (particle_cnt cfg) (move_body_rl cfg (position (gbest st))) st"

text \<open>The state with its pending draws swapped pairwise.\<close>

definition swap_rng :: "pso_state \<Rightarrow> pso_state" where
  "swap_rng st = st\<lparr>rng := swap_pairs (rng st)\<rparr>"

subsection \<open>Swapping the draws pairwise\<close>

lemma swap_pairs_snth: "swap_pairs s !! i = s !! (if even i then Suc i else i - 1)"
  by (simp add: swap_pairs_def)

lemma swap_pairs_shd [simp]: "shd (swap_pairs s) = shd (stl s)"
  using swap_pairs_snth [of s 0] by simp

lemma swap_pairs_shd_stl [simp]: "shd (stl (swap_pairs s)) = shd s"
  using swap_pairs_snth [of s 1] by simp

lemma swap_pairs_sdrop2: "stl (stl (swap_pairs s)) = swap_pairs (stl (stl s))"
proof -
  have "stl (stl (swap_pairs s)) !! i = swap_pairs (stl (stl s)) !! i" for i
    using swap_pairs_snth [of s "Suc (Suc i)"] swap_pairs_snth [of "stl (stl s)" i] by (cases i) simp_all
  then have "snth (stl (stl (swap_pairs s))) = snth (swap_pairs (stl (stl s)))" by blast
  then show ?thesis by (metis stream_smap_nats)
qed

lemma swap_pairs_swap_pairs [simp]: "swap_pairs (swap_pairs s) = s"
proof -
  have "swap_pairs (swap_pairs s) !! i = s !! i" for i
    by (auto simp: swap_pairs_snth elim: oddE)
  then have "snth (swap_pairs (swap_pairs s)) = snth s" by blast
  then show ?thesis by (metis stream_smap_nats)
qed

lemma swap_pairs_sdrop_even: "sdrop (2 * k) (swap_pairs s) = swap_pairs (sdrop (2 * k) s)"
proof -
  have "sdrop (2 * k) (swap_pairs s) !! i = swap_pairs (sdrop (2 * k) s) !! i" for i
    by (auto simp: sdrop_snth swap_pairs_snth elim: oddE)
  then have "snth (sdrop (2 * k) (swap_pairs s)) = snth (swap_pairs (sdrop (2 * k) s))" by blast
  then show ?thesis by (metis stream_smap_nats)
qed

subsection \<open>One sweep in either order\<close>

lemma move_particle_swap:
  "move_particle cfg gpos p (swap_pairs s) =
     (fst (move_particle_rl cfg gpos p s), swap_pairs (snd (move_particle_rl cfg gpos p s)))"
  by (simp add: move_particle_def move_particle_rl_def RND_eq swap_pairs_sdrop2)

lemma move_body_swap: "move_body cfg gpos i (swap_rng t) = swap_rng (move_body_rl cfg gpos i t)"
  by (simp add: move_body_def move_body_rl_def swap_rng_def move_particle_swap case_prod_unfold Let_def)

lemma ParticleMove_swap: "ParticleMove cfg (swap_rng st) = swap_rng (ParticleMove_rl cfg st)"
  unfolding ParticleMove_def ParticleMove_rl_def
  using for_u32_simulation [of "move_body cfg (position (gbest st))" swap_rng
      "move_body_rl cfg (position (gbest st))"] move_body_swap
  by (simp add: swap_rng_def)

lemma swarm_inv_swap_rng [simp]: "swarm_inv cfg (swap_rng st) = swarm_inv cfg st"
  by (simp add: swarm_inv_def swap_rng_def)

lemma gbest_swap_rng [simp]: "gbest (swap_rng st) = gbest st" "swarm (swap_rng st) = swarm st"
  by (simp_all add: swap_rng_def)

lemma swarm_inv_ParticleMove_rl:
  assumes "params_ok cfg" and "swarm_inv cfg st"
  shows "swarm_inv cfg (ParticleMove_rl cfg st)"
  using swarm_inv_ParticleMove [OF assms(1), of "swap_rng st"] assms(2)
  by (simp add: ParticleMove_swap)

text \<open>
  C19: \<open>ParticleMove\<close> compiled with the right operand of line 164 drawn first is the
  left-to-right sweep on the draws swapped pairwise, and it consumes the same
  \<open>2 * particle_cnt\<close> draws: the two compilations differ only in which draw of a pair
  multiplies \<open>c1\<close>.
\<close>

theorem ParticleMove_rl_swapped:
  assumes "length (swarm st) = unat (particle_cnt cfg)"
  shows "ParticleMove_rl cfg st =
    (ParticleMove cfg (st\<lparr>rng := swap_pairs (rng st)\<rparr>))\<lparr>rng := sdrop (2 * length (swarm st)) (rng st)\<rparr>"
proof -
  let ?t = "ParticleMove_rl cfg st"
  have e: "ParticleMove cfg (st\<lparr>rng := swap_pairs (rng st)\<rparr>) = ?t\<lparr>rng := swap_pairs (rng ?t)\<rparr>"
    using ParticleMove_swap [of cfg st] by (simp add: swap_rng_def)
  have "swap_pairs (rng ?t) = swap_pairs (sdrop (2 * length (swarm st)) (rng st))"
    using arg_cong [OF e, of rng] ParticleMove_rng [of "st\<lparr>rng := swap_pairs (rng st)\<rparr>" cfg] assms
    by (simp add: swap_pairs_sdrop_even)
  then have r: "rng ?t = sdrop (2 * length (swarm st)) (rng st)"
    by (metis swap_pairs_swap_pairs)
  show ?thesis unfolding e r [symmetric] by simp
qed

text \<open>
  C20: with the right-to-left compilation the swarm invariant still holds after any number
  of sweeps, and the global best fitness never decreases.
\<close>

theorem ParticleMove_rl_inv:
  assumes "params_ok cfg" and "swarm_inv cfg st"
  shows "swarm_inv cfg ((ParticleMove_rl cfg ^^ k) st)
       \<and> fitness (gbest st) \<le> fitness (gbest ((ParticleMove_rl cfg ^^ k) st))"
proof (induction k)
  case 0
  then show ?case using assms(2) by simp
next
  case (Suc k)
  have "fitness (gbest ((ParticleMove_rl cfg ^^ k) st))
      \<le> fitness (gbest (ParticleMove_rl cfg ((ParticleMove_rl cfg ^^ k) st)))"
    using gbest_fitness_ParticleMove [of "swap_rng ((ParticleMove_rl cfg ^^ k) st)" cfg]
    by (simp add: ParticleMove_swap)
  then show ?case using Suc swarm_inv_ParticleMove_rl [OF assms(1)] by auto
qed

subsection \<open>Witnesses\<close>

theorem ParticleMove_rl_swapped_witness:
  "length (swarm demo_state) = unat (particle_cnt main_params)
   \<and> ParticleMove_rl main_params demo_state =
     (ParticleMove main_params (demo_state\<lparr>rng := swap_pairs (rng demo_state)\<rparr>))
       \<lparr>rng := sdrop (2 * length (swarm demo_state)) (rng demo_state)\<rparr>"
proof -
  have h: "length (swarm demo_state) = unat (particle_cnt main_params)"
    by (simp add: demo_state_def main_params_def)
  show ?thesis using h ParticleMove_rl_swapped [OF h] by blast
qed

theorem ParticleMove_rl_inv_witness:
  "params_ok main_params \<and> swarm_inv main_params demo_state
   \<and> swarm_inv main_params ((ParticleMove_rl main_params ^^ 3) demo_state)
   \<and> fitness (gbest demo_state) \<le> fitness (gbest ((ParticleMove_rl main_params ^^ 3) demo_state))"
proof -
  have h1: "params_ok main_params" by (simp add: main_params_def params_ok_def)
  have h2: "swarm_inv main_params demo_state" by (simp add: demo_defs)
  show ?thesis using h1 h2 ParticleMove_rl_inv [OF h1 h2, of 3] by blast
qed
end
