(* ===== verification/Trace.thy ===== *)
theory Trace
  imports Driver
begin

text \<open>
  The run of \<open>main\<close> (lines 109--111 of \<open>src/pso_linReg.c\<close>) as a trace of states,
  and which particle the global best is. \<open>pso_trace\<close> lists the state after
  \<open>ParticleInit\<close> and after each sweep, and the global best at its end is a particle
  evaluated during the run with the largest fitness of all of them (the abstract contract
  \<open>best_of\<close>). Because lines 145 and 183 compare strictly, ties go to the first:
  after \<open>ParticleInit\<close> the global best is the first particle of maximal fitness, and a
  sweep that only ties the global best leaves it unchanged. Finally, a run depends only on a
  finite prefix of the random stream (\<open>agree\<close>: states equal up to the next \<open>m\<close> draws).
\<close>

text \<open>
  The states \<open>main\<close> passes through in the loop of lines 110--111: the state before
  the first sweep and after each of the \<open>n\<close> sweeps.
\<close>

primrec pso_trace :: "params \<Rightarrow> nat \<Rightarrow> pso_state \<Rightarrow> pso_state list" where
  "pso_trace cfg 0 st = [st]"
| "pso_trace cfg (Suc n) st = st # pso_trace cfg n (ParticleMove cfg st)"

text \<open>
  The particles evaluated during a trace: those of every state, as each sweep moves every
  particle once and stores it, together with its new fitness, in the array.
\<close>

definition evaluated :: "pso_state list \<Rightarrow> particle list" where
  "evaluated tr = concat (map swarm tr)"

text \<open>
  The abstract contract of the global best: one of the particles evaluated, with a fitness
  at least that of every other.
\<close>

definition best_of :: "particle list \<Rightarrow> particle \<Rightarrow> bool" where
  "best_of ps g \<longleftrightarrow> g \<in> set ps \<and> (\<forall>q \<in> set ps. fitness q \<le> fitness g)"

text \<open>Two states agree up to \<open>m\<close> draws: same array, same global best, same next \<open>m\<close> values of \<open>rand()\<close>.\<close>

definition agree :: "nat \<Rightarrow> pso_state \<Rightarrow> pso_state \<Rightarrow> bool" where
  "agree m t1 t2 \<longleftrightarrow> swarm t1 = swarm t2 \<and> gbest t1 = gbest t2 \<and> stake m (rng t1) = stake m (rng t2)"

subsection \<open>Lemmas on traces\<close>

lemma pso_trace_hd: "pso_trace cfg n st = st # tl (pso_trace cfg n st)"
  by (cases n) simp_all

lemma pso_trace_length [simp]: "length (pso_trace cfg n st) = Suc n"
  by (induction n arbitrary: st) simp_all

lemma pso_trace_not_Nil [simp]: "pso_trace cfg n st \<noteq> []"
  by (cases n) simp_all

lemma evaluated_Cons [simp]: "evaluated (st # tr) = swarm st @ evaluated tr"
  by (simp add: evaluated_def)

lemma best_of_step:
  assumes "best_of E g"
  shows "best_of (E @ ps) (fold update_gbest ps g)"
  using assms fold_update_gbest_find [of g ps] fold_update_gbest_mem [of ps g] unfolding best_of_def
  by (auto intro: order_trans)

lemma pso_trace_best:
  assumes "length (swarm st) = unat (particle_cnt cfg)" and "best_of E (gbest st)"
  shows "best_of (E @ evaluated (tl (pso_trace cfg n st))) (gbest (last (pso_trace cfg n st)))"
  using assms
proof (induction n arbitrary: st E)
  case 0
  then show ?case by (simp add: evaluated_def)
next
  case (Suc n)
  let ?st' = "ParticleMove cfg st"
  have "best_of (E @ swarm ?st') (gbest ?st')"
    using best_of_step [OF Suc.prems(2)] ParticleMove_gbest_fold [OF Suc.prems(1)] by simp
  then have "best_of ((E @ swarm ?st') @ evaluated (tl (pso_trace cfg n ?st'))) (gbest (last (pso_trace cfg n ?st')))"
    using Suc.prems(1) by (intro Suc.IH) simp_all
  moreover have "evaluated (pso_trace cfg n ?st') = swarm ?st' @ evaluated (tl (pso_trace cfg n ?st'))"
    by (subst pso_trace_hd) simp
  ultimately show ?case by simp
qed

subsection \<open>Runs that agree on a prefix of the draws\<close>

lemma ParticleMove_agree:
  assumes len: "length (swarm t1) = unat (particle_cnt cfg)"
    and ag: "agree (2 * length (swarm t1) + m) t1 t2"
  shows "agree m (ParticleMove cfg t1) (ParticleMove cfg t2)"
proof -
  let ?L = "length (swarm t1)"
  have sw: "swarm t1 = swarm t2" and g: "gbest t1 = gbest t2"
    and pre: "stake (2 * ?L + m) (rng t1) = stake (2 * ?L + m) (rng t2)"
    using ag unfolding agree_def by blast+
  have len2: "length (swarm t2) = unat (particle_cnt cfg)" using len sw by simp
  have d: "rng t1 !! i = rng t2 !! i" if "i < 2 * ?L" for i
    using stake_eq_snth [OF stake_eq_split(1) [OF pre] that] .
  have d0: "rng t1 !! (2 * k) = rng t2 !! (2 * k)" and d1: "stl (rng t1) !! (2 * k) = stl (rng t2) !! (2 * k)"
    if "k < length (swarm t2)" for k
    using d [of "2 * k"] d [of "Suc (2 * k)"] that sw by simp_all
  have "swarm (ParticleMove cfg t1) = swarm (ParticleMove cfg t2)"
    using ParticleMove_ref [OF len] ParticleMove_ref [OF len2] sw g
    by (simp add: Let_def move_ref_swarm move_particle_draws sdrop_snth) (auto simp: d0 d1)
  moreover have "stake m (rng (ParticleMove cfg t1)) = stake m (rng (ParticleMove cfg t2))"
    using ParticleMove_rng [OF len] ParticleMove_rng [OF len2] stake_eq_split(2) [OF pre] sw by simp
  ultimately show ?thesis
    using ParticleMove_gbest_fold [OF len] ParticleMove_gbest_fold [OF len2] g by (simp add: agree_def)
qed

lemma ParticleInit_agree:
  assumes len: "length (swarm st) = unat (particle_cnt cfg)"
    and pre: "stake (2 * length (swarm st) + m) s1 = stake (2 * length (swarm st) + m) s2"
  shows "agree m (ParticleInit cfg s1 st) (ParticleInit cfg s2 st)"
proof -
  have d: "s1 !! i = s2 !! i" if "i < 2 * length (swarm st)" for i
    using stake_eq_snth [OF stake_eq_split(1) [OF pre] that] .
  have d0: "s1 !! (2 * k) = s2 !! (2 * k)" and d1: "stl s1 !! (2 * k) = stl s2 !! (2 * k)"
    if "k < length (swarm st)" for k
    using d [of "2 * k"] d [of "Suc (2 * k)"] that by simp_all
  have sw: "swarm (ParticleInit cfg s1 st) = swarm (ParticleInit cfg s2 st)"
    using ParticleInit_ref [OF len, of s1] ParticleInit_ref [OF len, of s2] len
    by (simp add: Let_def init_ref_swarm) (subst (1 2) init_particle_draws, auto simp: d0 d1)
  have g: "gbest (ParticleInit cfg s1 st) = gbest (ParticleInit cfg s2 st)"
  proof (cases "particle_cnt cfg = 0")
    case True
    then show ?thesis by (simp add: ParticleInit_no_particles)
  next
    case False
    then show ?thesis using ParticleInit_gbest_fold [OF len False] sw by metis
  qed
  have "stake m (rng (ParticleInit cfg s1 st)) = stake m (rng (ParticleInit cfg s2 st))"
    using ParticleInit_rng [OF len] stake_eq_split(2) [OF pre] by simp
  then show ?thesis using sw g by (simp add: agree_def)
qed

lemma funpow_agree:
  assumes "length (swarm t1) = unat (particle_cnt cfg)"
    and "agree (2 * length (swarm t1) * k + m) t1 t2"
  shows "agree m ((ParticleMove cfg ^^ k) t1) ((ParticleMove cfg ^^ k) t2)"
  using assms
proof (induction k arbitrary: t1 t2)
  case 0
  then show ?case by simp
next
  case (Suc k)
  have "agree (2 * length (swarm t1) * k + m) (ParticleMove cfg t1) (ParticleMove cfg t2)"
    using Suc.prems by (intro ParticleMove_agree) (simp_all add: algebra_simps)
  then have "agree m ((ParticleMove cfg ^^ k) (ParticleMove cfg t1)) ((ParticleMove cfg ^^ k) (ParticleMove cfg t2))"
    using Suc.prems(1) by (intro Suc.IH) simp_all
  then show ?case by (simp add: funpow_Suc_right del: funpow.simps)
qed

subsection \<open>Properties\<close>

text \<open>
  C21: after \<open>ParticleInit\<close> the global best is the particle of least index among those
  of maximal fitness: the strict \<open>>\<close> of line 145 keeps the first of equal ones.
\<close>

theorem ParticleInit_first_best:
  assumes "length (swarm st) = unat (particle_cnt cfg)" and "particle_cnt cfg \<noteq> 0"
  shows "\<exists>j < length (swarm (ParticleInit cfg seed st)).
           gbest (ParticleInit cfg seed st) = swarm (ParticleInit cfg seed st) ! j
         \<and> (\<forall>k < length (swarm (ParticleInit cfg seed st)).
              fitness (swarm (ParticleInit cfg seed st) ! k) \<le> fitness (gbest (ParticleInit cfg seed st)))
         \<and> (\<forall>k < j. fitness (swarm (ParticleInit cfg seed st) ! k) < fitness (gbest (ParticleInit cfg seed st)))"
proof -
  let ?ps = "swarm (ParticleInit cfg seed st)"
  have ne: "?ps \<noteq> []" and g: "gbest (ParticleInit cfg seed st) = fold update_gbest (tl ?ps) (hd ?ps)"
    using ParticleInit_gbest_fold [OF assms] by simp_all
  have ps: "hd ?ps # tl ?ps = ?ps" using ne by simp
  show ?thesis using fold_update_gbest_first [of "hd ?ps" "tl ?ps"] unfolding ps g .
qed

text \<open>
  C22: a sweep leaves the global best record unchanged (position included) exactly when no
  moved particle has a strictly larger fitness: a tie does not replace it (line 183).
\<close>

theorem ParticleMove_tie_keeps_best:
  assumes "length (swarm st) = unat (particle_cnt cfg)"
  shows "gbest (ParticleMove cfg st) = gbest st
     \<longleftrightarrow> (\<forall>p \<in> set (swarm (ParticleMove cfg st)). fitness p \<le> fitness (gbest st))"
proof -
  let ?ps = "swarm (ParticleMove cfg st)"
  have g: "gbest (ParticleMove cfg st) = fold update_gbest ?ps (gbest st)"
    by (rule ParticleMove_gbest_fold [OF assms])
  have all: "\<forall>q \<in> set (gbest st # ?ps). fitness q \<le> fitness (fold update_gbest ?ps (gbest st))"
    using fold_update_gbest_find [of "gbest st" ?ps] by blast
  then show ?thesis using all g fold_update_gbest_stays [of ?ps "gbest st"] by auto
qed

text \<open>
  C23: the global best refines its abstract contract. After \<open>ParticleInit\<close> and any
  number of sweeps, the global best is one of the particles evaluated during the run, and
  no particle evaluated during the run has a larger fitness.
\<close>

theorem run_gbest_best_ever:
  assumes "length (swarm st) = unat (particle_cnt cfg)" and "particle_cnt cfg \<noteq> 0"
  shows "best_of (evaluated (pso_trace cfg n (ParticleInit cfg seed st)))
                 (gbest (last (pso_trace cfg n (ParticleInit cfg seed st))))"
proof -
  let ?st0 = "ParticleInit cfg seed st"
  let ?ps = "swarm ?st0"
  have ne: "?ps \<noteq> []" and g: "gbest ?st0 = fold update_gbest (tl ?ps) (hd ?ps)"
    using ParticleInit_gbest_fold [OF assms] by simp_all
  have "best_of ([hd ?ps] @ tl ?ps) (gbest ?st0)"
    unfolding g by (rule best_of_step) (simp add: best_of_def)
  then have b0: "best_of ?ps (gbest ?st0)" using ne by simp
  have "best_of (?ps @ evaluated (tl (pso_trace cfg n ?st0))) (gbest (last (pso_trace cfg n ?st0)))"
    using assms(1) b0 by (intro pso_trace_best) simp_all
  moreover have "evaluated (pso_trace cfg n ?st0) = ?ps @ evaluated (tl (pso_trace cfg n ?st0))"
    by (subst pso_trace_hd) simp
  ultimately show ?thesis by simp
qed

text \<open>
  C24: the spec's "determinism under fixed randomness", made precise. A run of
  \<open>ParticleInit\<close> and \<open>n\<close> sweeps depends only on the first
  \<open>2 * particle_cnt * (n + 1)\<close> values of \<open>rand()\<close>: two streams that agree on them give
  the same array and the same global best, whatever follows.
\<close>

theorem run_determined_by_prefix:
  assumes "length (swarm st) = unat (particle_cnt cfg)"
    and "stake (2 * unat (particle_cnt cfg) * Suc (unat n)) s1 = stake (2 * unat (particle_cnt cfg) * Suc (unat n)) s2"
  shows "swarm (main_loop cfg n (ParticleInit cfg s1 st)) = swarm (main_loop cfg n (ParticleInit cfg s2 st))
       \<and> gbest (main_loop cfg n (ParticleInit cfg s1 st)) = gbest (main_loop cfg n (ParticleInit cfg s2 st))"
proof -
  let ?L = "length (swarm st)"
  have "agree (2 * ?L * unat n + 0) (ParticleInit cfg s1 st) (ParticleInit cfg s2 st)"
    using assms by (intro ParticleInit_agree) (simp_all add: algebra_simps)
  then have "agree 0 ((ParticleMove cfg ^^ unat n) (ParticleInit cfg s1 st)) ((ParticleMove cfg ^^ unat n) (ParticleInit cfg s2 st))"
    using assms(1) by (intro funpow_agree) simp_all
  then show ?thesis by (simp add: agree_def main_loop_funpow)
qed

subsection \<open>Witnesses\<close>

theorem ParticleInit_first_best_witness:
  "length (swarm demo_state) = unat (particle_cnt main_params) \<and> particle_cnt main_params \<noteq> 0
   \<and> (\<exists>j < length (swarm (ParticleInit main_params (sconst 7) demo_state)).
        gbest (ParticleInit main_params (sconst 7) demo_state) = swarm (ParticleInit main_params (sconst 7) demo_state) ! j
      \<and> (\<forall>k < length (swarm (ParticleInit main_params (sconst 7) demo_state)).
           fitness (swarm (ParticleInit main_params (sconst 7) demo_state) ! k)
           \<le> fitness (gbest (ParticleInit main_params (sconst 7) demo_state)))
      \<and> (\<forall>k < j. fitness (swarm (ParticleInit main_params (sconst 7) demo_state) ! k)
           < fitness (gbest (ParticleInit main_params (sconst 7) demo_state))))"
proof -
  have h: "length (swarm demo_state) = unat (particle_cnt main_params)" "particle_cnt main_params \<noteq> 0"
    by (simp_all add: demo_state_def main_params_def)
  show ?thesis using h ParticleInit_first_best [OF h, of "sconst 7"] by blast
qed

theorem ParticleMove_tie_keeps_best_witness:
  "length (swarm demo_state) = unat (particle_cnt main_params)
   \<and> (gbest (ParticleMove main_params demo_state) = gbest demo_state
      \<longleftrightarrow> (\<forall>p \<in> set (swarm (ParticleMove main_params demo_state)). fitness p \<le> fitness (gbest demo_state)))"
proof -
  have h: "length (swarm demo_state) = unat (particle_cnt main_params)"
    by (simp add: demo_state_def main_params_def)
  show ?thesis using h ParticleMove_tie_keeps_best [OF h] by blast
qed

theorem run_gbest_best_ever_witness:
  "length (swarm demo_state) = unat (particle_cnt main_params) \<and> particle_cnt main_params \<noteq> 0
   \<and> best_of (evaluated (pso_trace main_params 2 (ParticleInit main_params (sconst 7) demo_state)))
             (gbest (last (pso_trace main_params 2 (ParticleInit main_params (sconst 7) demo_state))))"
proof -
  have h: "length (swarm demo_state) = unat (particle_cnt main_params)" "particle_cnt main_params \<noteq> 0"
    by (simp_all add: demo_state_def main_params_def)
  show ?thesis using h run_gbest_best_ever [OF h, of 2 "sconst 7"] by blast
qed

theorem run_determined_by_prefix_witness:
  "length (swarm \<lparr>swarm = [zero_particle], gbest = zero_particle, rng = sconst 0\<rparr>)
     = unat (particle_cnt (main_params\<lparr>particle_cnt := 1\<rparr>))
   \<and> stake (2 * unat (particle_cnt (main_params\<lparr>particle_cnt := 1\<rparr>)) * Suc (unat (1 :: u32))) (sconst 3)
     = stake (2 * unat (particle_cnt (main_params\<lparr>particle_cnt := 1\<rparr>)) * Suc (unat (1 :: u32))) ([3, 3, 3, 3] @- sconst 9)
   \<and> swarm (main_loop (main_params\<lparr>particle_cnt := 1\<rparr>) 1
        (ParticleInit (main_params\<lparr>particle_cnt := 1\<rparr>) (sconst 3) \<lparr>swarm = [zero_particle], gbest = zero_particle, rng = sconst 0\<rparr>))
     = swarm (main_loop (main_params\<lparr>particle_cnt := 1\<rparr>) 1
        (ParticleInit (main_params\<lparr>particle_cnt := 1\<rparr>) ([3, 3, 3, 3] @- sconst 9) \<lparr>swarm = [zero_particle], gbest = zero_particle, rng = sconst 0\<rparr>))
   \<and> gbest (main_loop (main_params\<lparr>particle_cnt := 1\<rparr>) 1
        (ParticleInit (main_params\<lparr>particle_cnt := 1\<rparr>) (sconst 3) \<lparr>swarm = [zero_particle], gbest = zero_particle, rng = sconst 0\<rparr>))
     = gbest (main_loop (main_params\<lparr>particle_cnt := 1\<rparr>) 1
        (ParticleInit (main_params\<lparr>particle_cnt := 1\<rparr>) ([3, 3, 3, 3] @- sconst 9) \<lparr>swarm = [zero_particle], gbest = zero_particle, rng = sconst 0\<rparr>))"
proof -
  have h: "length (swarm \<lparr>swarm = [zero_particle], gbest = zero_particle, rng = sconst 0\<rparr>)
      = unat (particle_cnt (main_params\<lparr>particle_cnt := 1\<rparr>))"
    "stake (2 * unat (particle_cnt (main_params\<lparr>particle_cnt := 1\<rparr>)) * Suc (unat (1 :: u32))) (sconst 3)
     = stake (2 * unat (particle_cnt (main_params\<lparr>particle_cnt := 1\<rparr>)) * Suc (unat (1 :: u32))) ([3, 3, 3, 3] @- sconst 9)"
    by (simp_all add: numeral_eq_Suc)
  show ?thesis using h run_determined_by_prefix [OF h] by blast
qed

end
