(* ===== verification/Order_Main.thy ===== *)
theory Order_Main
  imports Order Trace
begin

text \<open>
  \<open>main\<close> (lines 94--118 of \<open>src/pso_linReg.c\<close>) compiled with the right operand of
  line 164 drawn first: \<open>main_loop_rl\<close> is the loop of lines 110--111 over
  \<open>ParticleMove_rl\<close>, and \<open>main_rl\<close> is \<open>main\<close> with that loop (with
  \<open>particle_cnt = 2000\<close>, a failed \<open>malloc\<close> means writes through \<open>NULL\<close>). By the
  simulation of theory \<open>Order\<close>, lifted to the loop, \<open>main_rl\<close> on a stream is
  \<open>main\<close> on the stream whose draws after the first \<open>4000\<close> (those of
  \<open>ParticleInit\<close>) are swapped pairwise (\<open>swap_after\<close>), up to that swap in the final
  random state.
\<close>

text \<open>Lines 110--111 over the right-to-left sweep.\<close>

definition main_loop_rl :: "params \<Rightarrow> u32 \<Rightarrow> pso_state \<Rightarrow> pso_state" where
  "main_loop_rl cfg max_itera st = for_u32 0 max_itera (\<lambda>_. ParticleMove_rl cfg) st"

text \<open>Lines 94--118 with the loop above.\<close>

definition main_rl :: "bool \<Rightarrow> (nat \<Rightarrow> particle) \<Rightarrow> rand_stream \<Rightarrow> pso_error + (real \<times> real) list \<times> pso_state" where
  "main_rl avail junk seed =
     (case AllocateParticle main_params avail junk of
        None \<Rightarrow> Inl Null_dereference
      | Some blk \<Rightarrow>
          if length blk < unat (particle_cnt main_params) then Inl Heap_overflow
          else let st = main_loop_rl main_params 100000
                          (ParticleInit main_params seed \<lparr>swarm = blk, gbest = zero_particle, rng = seed\<rparr>)
               in Inr ([ParticleDisplay st, (-57.469, fit (-57.469))], ParticleRelease st))"

text \<open>The stream with its values after the first \<open>k\<close> swapped pairwise.\<close>

definition swap_after :: "nat \<Rightarrow> rand_stream \<Rightarrow> rand_stream" where
  "swap_after k s = stake k s @- swap_pairs (sdrop k s)"

subsection \<open>The right-to-left \<open>main\<close> simulates the left-to-right one\<close>

lemma swap_rng_swap_rng [simp]: "swap_rng (swap_rng st) = st"
  by (simp add: swap_rng_def)

lemma main_loop_swap: "main_loop cfg n (swap_rng st) = swap_rng (main_loop_rl cfg n st)"
  unfolding main_loop_def main_loop_rl_def
  by (rule for_u32_simulation) (rule ParticleMove_swap)

lemma ParticleInit_swap:
  assumes len: "length (swarm st) = unat (particle_cnt cfg)"
  shows "swap_rng (ParticleInit cfg seed st) = ParticleInit cfg (swap_after (2 * length (swarm st)) seed) st"
proof -
  let ?L = "2 * length (swarm st)"
  let ?s' = "swap_after ?L seed"
  have "stake (?L + 0) seed = stake (?L + 0) ?s'" by (simp add: swap_after_def stake_shift)
  then have ag: "agree 0 (ParticleInit cfg seed st) (ParticleInit cfg ?s' st)"
    by (rule ParticleInit_agree [OF len])
  have "rng (swap_rng (ParticleInit cfg seed st)) = rng (ParticleInit cfg ?s' st)"
    by (simp add: swap_rng_def ParticleInit_rng [OF len] swap_after_def sdrop_shift)
  moreover have "pso_state.more (ParticleInit cfg seed st) = pso_state.more (ParticleInit cfg ?s' st)"
    using ParticleInit_ref [OF len, of seed] ParticleInit_ref [OF len, of ?s'] by (simp add: Let_def)
  ultimately show ?thesis using ag by (intro pso_state.equality) (simp_all add: agree_def swap_rng_def)
qed

lemma main_rl_swapped:
  "main_rl avail junk seed
     = map_sum id (\<lambda>(out, st). (out, swap_rng st)) (main avail junk (swap_after 4000 seed))"
proof (cases avail)
  case False
  then show ?thesis by (simp add: main_rl_def main_def run_def AllocateParticle_def main_params_def)
next
  case True
  let ?st = "\<lparr>swarm = map junk [0..<2000], gbest = zero_particle, rng = seed\<rparr>"
  let ?st' = "\<lparr>swarm = map junk [0..<2000], gbest = zero_particle, rng = swap_after 4000 seed\<rparr>"
  have len: "length (swarm ?st) = unat (particle_cnt main_params)" by (simp add: main_params_def)
  have init: "ParticleInit main_params (swap_after 4000 seed) ?st' = ParticleInit main_params (swap_after 4000 seed) ?st"
    by (simp add: ParticleInit_def)
  have "main_loop_rl main_params 100000 (ParticleInit main_params seed ?st)
      = swap_rng (main_loop main_params 100000 (ParticleInit main_params (swap_after 4000 seed) ?st'))"
    using main_loop_swap [of main_params 100000 "ParticleInit main_params seed ?st"]
      ParticleInit_swap [OF len, of seed] init by simp
  moreover have "unat (particle_cnt main_params) = 2000" by (simp add: main_params_def)
  moreover have "AllocateParticle main_params avail junk = Some (map junk [0..<2000])"
    using True main_alloc by simp
  ultimately show ?thesis
    unfolding main_rl_def main_def run_def
    by (simp add: run_block_def Let_def ParticleDisplay_def ParticleRelease_def swap_rng_def)
qed

end
