(* ===== verification/Spec2Isabelle.thy ===== *)
theory Spec2Isabelle
  imports Scenarios Order_Main
begin

text \<open>
  \<^bold>\<open>A verification model of \<open>src/pso_linReg.c\<close>\<close>, a particle swarm optimiser
  that maximises \<open>fit(x) = |x\<^sup>3 - 0.8x\<^sup>2 - 10000x + 8000|\<close> over \<open>[-100, 100]\<close>.

  \<^emph>\<open>The program.\<close> One C file: the objective \<open>fit\<close>; the \<open>particle\<close> struct;
  global parameters \<open>w, c1, c2, max_v, max_pos, min_pos, particle_cnt\<close> and the global
  best \<open>gbest\<close>; \<open>AllocateParticle\<close> (\<open>malloc\<close> of the array), \<open>ParticleInit\<close>
  (seed \<open>rand\<close>, random positions and velocities, first global best),
  \<open>ParticleMove\<close> (one sweep: new velocity attracted to the personal best and to the
  global best position read before the sweep, clamps, new fitness, personal best, and a
  live comparison with the global best), \<open>ParticleDisplay\<close> (prints \<open>gbest\<close>) and
  \<open>main\<close> (sets the parameters, allocates, initialises, moves \<open>max_itera\<close> times,
  prints). The components share the globals and the array: \<open>main\<close> calls the others in
  sequence, and \<open>ParticleMove\<close> reads and writes \<open>gbest\<close> in the middle of its loop.

  \<^emph>\<open>The theories, in import order.\<close>
  \<^item> \<open>PSO_Prelude\<close>: \<open>u32\<close> for C's \<open>unsigned\<close>; \<open>for_u32\<close>, the C loop
    \<open>for (i = i0; i < n; i++)\<close> over a 32-bit counter, total (measure
    \<open>unat n - unat i\<close>) because \<open>i + 1\<close> cannot wrap under \<open>i < n\<close>, with its
    step equations (collection \<open>loop_simps\<close>), its invariant rule \<open>for_u32_rule\<close>, its
    simulation rule \<open>for_u32_simulation\<close>; lemmas on stream prefixes (\<open>stake\<close>).
  \<^item> \<open>Fitness\<close>: \<open>fit\<close> (lines 46--51). It equals the spec's cubic (C8); the reference
    \<open>fit(-57.469) = 390245.791738\<close> quoted on lines 44 and 116 is the maximum on
    \<open>[-100, 100]\<close> up to \<open>10\<^sup>-\<^sup>4\<close> (C9; \<open>cubic_upper\<close>, \<open>cubic_lower\<close>: a
    square times a sign-definite factor plus a linear rest, expanded at nine decimals of the
    critical point).
  \<^item> \<open>PSO_Random\<close>: \<open>rand()\<close> as the stream of values it returns after \<open>srand\<close>,
    \<open>rand_ok\<close> when all are in \<open>[0, RAND_MAX]\<close> as the C standard requires, and
    \<open>RND()\<close> (line 85). \<open>RAND_MAX = 32767\<close>, the value of the compiler the header
    names; no proof depends on it beyond its positivity.
  \<^item> \<open>Particle\<close>: records \<open>particle\<close> and \<open>params\<close>, \<open>main_params\<close> (lines
    102--105), the clamps (lines 165--166, 169--170), \<open>init_particle\<close> (lines 138--142),
    \<open>particle_update\<close> (lines 160--180 for given draws), \<open>move_particle\<close> and
    \<open>move_particle_rl\<close> (the two \<open>RND()\<close> of line 164, whose order C leaves
    unspecified, drawn left to right or right to left), \<open>update_gbest\<close> (lines
    183--184); \<open>particle_ok\<close>, the invariant of one particle, kept under both orders
    (C17).
  \<^item> \<open>Swarm\<close>: the state \<open>pso_state\<close> (array \<open>p\<close>, \<open>gbest\<close>, random stream),
    \<open>zero_particle\<close> (the zero-initialised global), \<open>ParticleInit\<close> and
    \<open>ParticleMove\<close> as \<open>for_u32\<close> loops whose bodies (\<open>init_body\<close>,
    \<open>move_body\<close>) update the list by index; the list-recursive references \<open>init_ref\<close>
    and \<open>move_ref\<close>, the lemmas that the loops compute them (\<open>init_loop_ref\<close>,
    \<open>move_loop_ref\<close>), and closed forms (which draws each particle uses, how many
    draws a sweep consumes).
  \<^item> \<open>Swarm_Inv\<close>: \<open>swarm_inv\<close> (array length, every particle valid, \<open>gbest\<close> a
    valid particle whose fitness is the maximum of the personal bests and is attained)
    established by \<open>ParticleInit\<close> (C2) and kept by \<open>ParticleMove\<close> (C1); monotonicity
    of the global and personal bests over a sweep (C6, C7); the closed form of a sweep (C3):
    attraction to the start-of-sweep global best, live comparison, \<open>2 * particle_cnt\<close>
    draws; the live comparison is a running maximum (C15); the closed form of
    \<open>ParticleInit\<close> (C16); its velocities lie in \<open>[0, max_v]\<close> (C25).
  \<^item> \<open>Driver\<close>: \<open>AllocateParticle\<close> with the 32-bit \<open>size_t\<close> product,
    \<open>ParticleDisplay\<close>, \<open>ParticleRelease\<close>, \<open>main_loop\<close>, \<open>run\<close> (\<open>main\<close> for
    any parameters, returning the printed values and the final state; \<open>NULL\<close> and
    out-of-bounds writes are the errors of \<open>pso_error\<close>) and \<open>main\<close>; the
    inductive relation \<open>reachable\<close> of program states and the invariant by rule induction
    (C5); the wrap of the allocation size (C10) and the run without particles (C11).
  \<^item> \<open>Scenarios\<close>: the scenarios of section 8 of the spec (C12, C13, C14), and the liveness
    of the drift: with \<open>w = 1, c1 = c2 = 0\<close> and positive velocities every particle
    reaches \<open>max_pos\<close> after finitely many sweeps (C18).
  \<^item> \<open>Order\<close>: \<open>ParticleMove_rl\<close>, the sweep of lines 151--186 compiled with the
    right operand of line 164 drawn first. It is the left-to-right sweep on the stream with
    each pair of draws swapped (\<open>swap_pairs\<close>), consuming the same draws (C19), so the
    swarm invariant and the growth of the global best hold for either compiler (C20).
  \<^item> \<open>Trace\<close>: \<open>pso_trace\<close>, the states the loop of lines 110--111 passes through;
    the abstract contract \<open>best_of\<close> of the global best (a particle evaluated during the
    run, with the largest fitness of all) and the refinement that the code meets it (C23);
    the tie-breaking of the strict comparisons of lines 145 and 183: the first particle of
    maximal fitness after \<open>ParticleInit\<close> (C21), no replacement on a tie in a sweep
    (C22); a run depends only on the first \<open>2 * particle_cnt * (n + 1)\<close> draws, so two
    random sources agreeing on them give the same result (C24).
  \<^item> \<open>Order_Main\<close>: \<open>main_loop_rl\<close> and \<open>main_rl\<close>, \<open>main\<close> with the
    right-to-left sweep, and the lemma that it prints what \<open>main\<close> prints on the stream
    whose draws after \<open>ParticleInit\<close> are swapped pairwise (\<open>main_rl_swapped\<close>).
  \<^item> this theory: what \<open>main\<close> prints (C4), for either order of line 164 (C26), from
    one lemma on the printed values of the states \<open>main\<close> reaches.

  \<^emph>\<open>Findings.\<close> The comment on line 49 names another cubic (\<open>1000x\<close>, not the
  \<open>10000x\<close> that line 50 and the spec use). \<open>malloc\<close>'s result is unchecked (the
  model's \<open>Null_dereference\<close>) and its byte count wraps on a 32-bit \<open>size_t\<close> (C10).
  With no particle the program prints a fitness inconsistent with its position (C11). With
  one particle the global best is the personal best (C12), not the current fitness the spec
  states, and with \<open>c1 = c2 = 0, w = 1\<close> the motion is a deterministic drift, not the
  random walk the spec describes (C14). The order of the two \<open>RND()\<close> calls of
  line 164 is unspecified in C and can change the trajectory, but not the invariants
  (C17, C19, C20) nor the bound on what \<open>main\<close> prints (C26). The spec does not say how ties for the global best are broken; the code keeps
  the first particle of maximal fitness (C21, C22).

  \<^emph>\<open>Not modelled.\<close> IEEE rounding of \<open>double\<close>: reals are used (the binary64
  formalisations are outside the libraries this development may import), so the model does
  not see that \<open>RND() * pos_range + min_pos\<close> may leave the interval by an ulp, and the
  exact inversions that real arithmetic allows (the draws from \<open>init_particle\<close>'s
  result) are not claimed; a 64-bit \<open>size_t\<close>, under which the product of line 125 does
  not wrap and C10 does not apply; the algorithm
  by which \<open>rand\<close> produces its values (any stream in range is allowed, which covers
  every seed); \<open>time\<close>; the text \<open>printf\<close> prints (the printed values are modelled);
  the heap beyond the one array (\<open>free\<close> is the removal of the array from the state).
  Every function of the source is modelled; the lines of \<open>src/pso_linReg.c\<close> outside the
  map are comments, \<open>#include\<close>s, the prototypes of lines 86--90 and the loop of
  lines 200--202, which is commented out.

  The random source stays partly modelled: the values of \<open>rand()\<close> are any stream in
  \<open>[0, RAND_MAX]\<close>, because the generator is the C library's and neither the repository
  nor the spec fixes it; every theorem holds for every such stream.
\<close>

section \<open>Properties across components\<close>

lemma main_state_reachable:
  assumes "rand_ok seed"
  shows "reachable main_params (main_loop main_params 100000
           (ParticleInit main_params seed \<lparr>swarm = map junk [0..<2000], gbest = zero_particle, rng = seed\<rparr>))"
proof -
  have "reachable main_params
      (ParticleInit main_params seed \<lparr>swarm = map junk [0..<2000], gbest = zero_particle, rng = seed\<rparr>)"
    using assms by (intro reachable.init) (simp_all add: main_params_def)
  then show ?thesis by (simp add: main_loop_def for_u32_const_body reachable_funpow)
qed

lemma main_state_display:
  assumes "rand_ok seed"
  shows "\<exists>pos. ParticleDisplay (main_loop main_params 100000
             (ParticleInit main_params seed \<lparr>swarm = map junk [0..<2000], gbest = zero_particle, rng = seed\<rparr>))
           = (pos, fit pos)
         \<and> -100 \<le> pos \<and> pos \<le> 100 \<and> fit pos \<le> fit (-57.469) + 0.0001"
proof -
  let ?st = "main_loop main_params 100000
      (ParticleInit main_params seed \<lparr>swarm = map junk [0..<2000], gbest = zero_particle, rng = seed\<rparr>)"
  have "swarm_inv main_params ?st"
    using reachable_swarm_inv [OF main_state_reachable [OF assms]]
    by (simp add: main_params_def params_ok_def)
  then have "particle_ok main_params (gbest ?st)"
    by (simp add: swarm_inv_def main_params_def)
  then have b: "-100 \<le> position (gbest ?st)" "position (gbest ?st) \<le> 100"
    and f: "fitness (gbest ?st) = fit (position (gbest ?st))"
    by (simp_all add: particle_ok_def main_params_def)
  have "fit (position (gbest ?st)) \<le> fit (-57.469) + 0.0001"
    using fit_le_max_value [OF b] fit_reference_ge by linarith
  then show ?thesis using b f by (simp add: ParticleDisplay_def)
qed

lemma main_True:
  "main True junk seed =
     (let st = main_loop main_params 100000
                 (ParticleInit main_params seed \<lparr>swarm = map junk [0..<2000], gbest = zero_particle, rng = seed\<rparr>)
      in Inr ([ParticleDisplay st, (-57.469, fit (-57.469))], ParticleRelease st))"
  by (simp add: main_def run_def main_alloc) (simp add: run_block_def main_params_def Let_def)

lemma rand_ok_swap_after: "rand_ok s \<Longrightarrow> rand_ok (swap_after k s)"
  by (auto simp: rand_ok_def swap_after_def sset_range shift_snth swap_pairs_snth sdrop_snth)

text \<open>
  C4: whatever \<open>rand()\<close> returns, when \<open>malloc\<close> succeeds \<open>main\<close> prints a best
  position inside \<open>[-100, 100]\<close> with its true fitness, which is never more than
  \<open>10\<^sup>-\<^sup>4\<close> above the reference \<open>fit(-57.469)\<close> printed after it.
\<close>

theorem main_output_bounded:
  assumes "rand_ok seed"
  shows "\<exists>pos f st. main True junk seed = Inr ([(pos, f), (-57.469, fit (-57.469))], st)
           \<and> -100 \<le> pos \<and> pos \<le> 100 \<and> f = fit pos \<and> f \<le> fit (-57.469) + 0.0001"
  using main_state_display [OF assms, of junk] by (force simp: main_True Let_def)

text \<open>
  C26: the same holds for \<open>main\<close> compiled with the right operand of line 164 drawn
  first: it prints what the left-to-right program prints when the draws after
  \<open>ParticleInit\<close> are swapped pairwise, a stream \<open>rand()\<close> may equally return, so its
  printed best is inside \<open>[-100, 100]\<close>, with its true fitness, at most \<open>10\<^sup>-\<^sup>4\<close>
  above the reference.
\<close>

theorem main_rl_output_bounded:
  assumes "rand_ok seed"
  shows "\<exists>pos f st. main_rl True junk seed = Inr ([(pos, f), (-57.469, fit (-57.469))], st)
           \<and> -100 \<le> pos \<and> pos \<le> 100 \<and> f = fit pos \<and> f \<le> fit (-57.469) + 0.0001"
  using main_state_display [OF rand_ok_swap_after [OF assms], of 4000 junk]
  by (force simp: main_rl_swapped main_True Let_def)

theorem main_output_bounded_witness:
  "rand_ok (sconst 0)
   \<and> (\<exists>pos f st. main True (\<lambda>_. zero_particle) (sconst 0) = Inr ([(pos, f), (-57.469, fit (-57.469))], st)
        \<and> -100 \<le> pos \<and> pos \<le> 100 \<and> f = fit pos \<and> f \<le> fit (-57.469) + 0.0001)"
  using main_output_bounded [of "sconst 0" "\<lambda>_. zero_particle"] by simp

theorem main_rl_output_bounded_witness:
  "rand_ok (sconst 0)
   \<and> (\<exists>pos f st. main_rl True (\<lambda>_. zero_particle) (sconst 0) = Inr ([(pos, f), (-57.469, fit (-57.469))], st)
        \<and> -100 \<le> pos \<and> pos \<le> 100 \<and> f = fit pos \<and> f \<le> fit (-57.469) + 0.0001)"
  using main_rl_output_bounded [of "sconst 0" "\<lambda>_. zero_particle"] by simp

end
